theory Spec2Isabelle
  imports Complex_Main "HOL-Library.AList"
begin

section \<open>Rate limiter (backend/utils.py, class RateLimiter)\<close>

text \<open>
  Timestamps are the values of \<^verbatim>\<open>time.time()\<close>; they are modelled as real numbers with
  exact arithmetic. The \<^verbatim>\<open>defaultdict(list)\<close> is a total function from client keys to
  lists whose default value is the empty list. The clock reading is an explicit argument
  \<open>now\<close> of every operation that reads it.
\<close>

record rate_limiter =
  max_requests :: int
  time_window :: real
  requests :: "string \<Rightarrow> real list"

definition RateLimiter_init :: "int \<Rightarrow> real \<Rightarrow> rate_limiter" where
  "RateLimiter_init n w = \<lparr>max_requests = n, time_window = w, requests = (\<lambda>_. [])\<rparr>"

definition RateLimiter_default :: rate_limiter where
  "RateLimiter_default = RateLimiter_init 5 3600"

definition clean_old :: "rate_limiter \<Rightarrow> real \<Rightarrow> string \<Rightarrow> real list" where
  "clean_old L now ip = [t \<leftarrow> requests L ip. now - t < time_window L]"

definition is_allowed :: "rate_limiter \<Rightarrow> real \<Rightarrow> string \<Rightarrow> bool \<times> rate_limiter" where
  "is_allowed L now ip =
     (let L1 = L\<lparr>requests := (requests L)(ip := clean_old L now ip)\<rparr>
      in if int (length (requests L1 ip)) < max_requests L1
         then (True, L1\<lparr>requests := (requests L1)(ip := requests L1 ip @ [now])\<rparr>)
         else (False, L1))"

definition get_remaining_requests :: "rate_limiter \<Rightarrow> real \<Rightarrow> string \<Rightarrow> int \<times> rate_limiter" where
  "get_remaining_requests L now ip =
     (let L1 = L\<lparr>requests := (requests L)(ip := clean_old L now ip)\<rparr>
      in (max 0 (max_requests L1 - int (length (requests L1 ip))), L1))"

definition get_reset_time :: "rate_limiter \<Rightarrow> string \<Rightarrow> real" where
  "get_reset_time L ip =
     (if requests L ip = [] then 0
      else min_list (requests L ip) + time_window L)"

text \<open>
  A history of calls to \<open>is_allowed\<close>: each call carries the clock reading and the client
  key. \<open>serve\<close> performs one call and records it in the list of admitted calls when it
  returned true; \<open>serve_all\<close> performs the calls from left to right.
\<close>

definition serve :: "rate_limiter \<times> (real \<times> string) list \<Rightarrow> real \<times> string
    \<Rightarrow> rate_limiter \<times> (real \<times> string) list" where
  "serve S c =
     (case is_allowed (fst S) (fst c) (snd c) of
        (ok, L') \<Rightarrow> (L', if ok then snd S @ [c] else snd S))"

definition serve_all :: "rate_limiter \<Rightarrow> (real \<times> string) list
    \<Rightarrow> rate_limiter \<times> (real \<times> string) list" where
  "serve_all L cs = foldl serve (L, []) cs"

definition admitted_of :: "(real \<times> string) list \<Rightarrow> string \<Rightarrow> real list" where
  "admitted_of adm ip = map fst [c \<leftarrow> adm. snd c = ip]"

definition admitted_in :: "(real \<times> string) list \<Rightarrow> string \<Rightarrow> real \<Rightarrow> real \<Rightarrow> real list" where
  "admitted_in adm ip a w = [t \<leftarrow> admitted_of adm ip. a \<le> t \<and> t < a + w]"

section \<open>Strings, bytes and paths\<close>

text \<open>
  Python \<^verbatim>\<open>str\<close> and \<^verbatim>\<open>bytes\<close> values are lists of characters. \<open>startswith s p\<close> is
  \<^verbatim>\<open>s.startswith(p)\<close>, \<open>endswith s p\<close> is \<^verbatim>\<open>s.endswith(p)\<close> and \<open>contains s p\<close> is
  \<^verbatim>\<open>p in s\<close>. \<open>lower\<close> maps the ASCII letters A-Z to a-z, as \<^verbatim>\<open>bytes.lower()\<close> does (and
  as \<^verbatim>\<open>str.lower()\<close> does on ASCII text).
\<close>

fun startswith :: "'a list \<Rightarrow> 'a list \<Rightarrow> bool" where
  "startswith s [] = True"
| "startswith [] (p # ps) = False"
| "startswith (c # s) (p # ps) = (c = p \<and> startswith s ps)"

definition endswith :: "'a list \<Rightarrow> 'a list \<Rightarrow> bool" where
  "endswith s p = startswith (rev s) (rev p)"

fun contains :: "'a list \<Rightarrow> 'a list \<Rightarrow> bool" where
  "contains [] p = (p = [])"
| "contains (c # s) p = (startswith (c # s) p \<or> contains s p)"

definition lower_char :: "char \<Rightarrow> char" where
  "lower_char c =
     (case map_of (zip ''ABCDEFGHIJKLMNOPQRSTUVWXYZ'' ''abcdefghijklmnopqrstuvwxyz'') c of
        Some d \<Rightarrow> d
      | None \<Rightarrow> c)"

definition lower :: "string \<Rightarrow> string" where
  "lower s = map lower_char s"

text \<open>
  \<^verbatim>\<open>os.path\<close> on a POSIX system. \<open>basename\<close> is what follows the last slash. \<open>splitext\<close>
  splits at the last dot of the last path component, unless that component has no
  character other than a dot before it (leading dots are not an extension). \<open>join\<close>
  is \<^verbatim>\<open>os.path.join\<close> of two components.
\<close>

definition basename :: "string \<Rightarrow> string" where
  "basename p = rev (takeWhile (\<lambda>c. c \<noteq> CHR ''/'') (rev p))"

definition splitext :: "string \<Rightarrow> string \<times> string" where
  "splitext p =
     (let name = basename p;
          stem = dropWhile (\<lambda>c. c = CHR ''.'') name
      in if CHR ''.'' \<in> set stem
         then (let ext = CHR ''.'' # rev (takeWhile (\<lambda>c. c \<noteq> CHR ''.'') (rev name))
               in (take (length p - length ext) p, ext))
         else (p, []))"

definition join :: "string \<Rightarrow> string \<Rightarrow> string" where
  "join a b =
     (if startswith b ''/'' then b
      else if a = [] \<or> endswith a ''/'' then a @ b
      else a @ ''/'' @ b)"

fun str_nat :: "nat \<Rightarrow> string" where
  "str_nat n =
     (if n < 10 then [''0123456789'' ! n]
      else str_nat (n div 10) @ [''0123456789'' ! (n mod 10)])"

definition str_int :: "int \<Rightarrow> string" where
  "str_int i = (if i < 0 then CHR ''-'' # str_nat (nat (- i)) else str_nat (nat i))"

definition join_words :: "string list \<Rightarrow> string" where
  "join_words ws = (case ws of [] \<Rightarrow> [] | w # rest \<Rightarrow> w @ concat (map (\<lambda>x. CHR '' '' # x) rest))"

section \<open>File validator (backend/utils.py, class SecurityValidator)\<close>

text \<open>
  An uploaded file is a handle with a name, its bytes and a read position. \<open>seek\<close> and
  \<open>read\<close> are those of a seekable in-memory stream and do not fail. The two library
  calls of the validator are parameters: \<open>magic_from_buffer\<close> is
  \<^verbatim>\<open>magic.from_buffer(content, mime=True)\<close> (\<open>None\<close> when it raises) and
  \<open>utf8_decode_ignore\<close> is \<^verbatim>\<open>content.decode('utf-8', errors='ignore')\<close>. The record of
  library functions also carries those of the upload handler: \<open>py_float\<close> is
  \<^verbatim>\<open>float(s)\<close> (\<open>None\<close> for \<^verbatim>\<open>ValueError\<close>), \<open>float_str\<close> is the text of a float in an
  f-string, and \<open>secure_filename\<close> is werkzeug's function of that name.
\<close>

record file_handle =
  filename :: string
  content :: string
  position :: nat

datatype pyfloat = Finite real | PosInf | NegInf | NaN

record libs =
  magic_from_buffer :: "string \<Rightarrow> string option"
  utf8_decode_ignore :: "string \<Rightarrow> string"
  py_float :: "string \<Rightarrow> pyfloat option"
  float_str :: "pyfloat \<Rightarrow> string"
  secure_filename :: "string \<Rightarrow> string"

definition seek :: "file_handle \<Rightarrow> nat \<Rightarrow> file_handle" where
  "seek f n = f\<lparr>position := n\<rparr>"

definition read :: "file_handle \<Rightarrow> string \<times> file_handle" where
  "read f = (drop (position f) (content f), f\<lparr>position := max (position f) (length (content f))\<rparr>)"

definition allowed_extensions :: "string list" where
  "allowed_extensions = [''.fbx'', ''.FBX'']"

definition max_file_size :: nat where
  "max_file_size = 100 * 1024 * 1024"

definition min_file_size :: nat where
  "min_file_size = 1024"

definition dangerous_patterns :: "string list" where
  "dangerous_patterns =
     [''<script'', ''javascript:'', ''vbscript:'', ''data:text/html'', ''<?php'', ''<%'',
      ''exec('', ''system('', ''shell_exec('', ''passthru('', ''eval('', ''assert('',
      ''file_get_contents('', ''file_put_contents('', ''fopen('', ''fwrite('',
      ''include('', ''require('']"

definition validate_extension :: "string \<Rightarrow> bool" where
  "validate_extension name = (snd (splitext (lower name)) \<in> set allowed_extensions)"

definition validate_file_size :: "string \<Rightarrow> bool" where
  "validate_file_size c = (min_file_size \<le> length c \<and> length c \<le> max_file_size)"

definition allowed_mime_types :: "string list" where
  "allowed_mime_types =
     [''application/octet-stream'', ''application/x-fbx'', ''model/fbx'', ''application/fbx'']"

definition validate_mime_type :: "libs \<Rightarrow> string \<Rightarrow> bool" where
  "validate_mime_type lb c =
     (case magic_from_buffer lb c of
        None \<Rightarrow> True
      | Some mime_type \<Rightarrow>
          mime_type \<in> set allowed_mime_types \<or> startswith mime_type ''application/'')"

definition validate_content_safety :: "string \<Rightarrow> bool" where
  "validate_content_safety c =
     (let content_lower = lower c
      in list_all (\<lambda>pattern. \<not> contains content_lower pattern) dangerous_patterns)"

definition validate_binary_fbx :: "string \<Rightarrow> bool" where
  "validate_binary_fbx c =
     (if length c < 32 then False
      else if \<not> startswith c ''Kaydara FBX Binary'' then False
      else if length c < 27 then False
      else True)"

definition required_elements :: "string list" where
  "required_elements = [''FBXHeaderExtension'', ''FBXVersion'', ''Definitions'', ''Objects'']"

definition validate_ascii_fbx :: "libs \<Rightarrow> string \<Rightarrow> bool" where
  "validate_ascii_fbx lb c =
     (let text_content = utf8_decode_ignore lb c
      in list_all (\<lambda>element. contains text_content element) required_elements)"

definition validate_fbx_structure :: "libs \<Rightarrow> string \<Rightarrow> bool" where
  "validate_fbx_structure lb c =
     (if startswith c ''Kaydara FBX Binary'' then validate_binary_fbx c
      else if startswith c ''; FBX'' \<or> contains (take 1024 c) ''FBXHeaderExtension''
        then validate_ascii_fbx lb c
      else False)"

definition validate_file :: "libs \<Rightarrow> file_handle \<Rightarrow> bool \<times> file_handle" where
  "validate_file lb file =
     (if filename file = [] then (False, file)
      else if \<not> validate_extension (filename file) then (False, file)
      else
        (let f1 = seek file 0;
             (c, f2) = read f1;
             f3 = seek f2 0
         in if \<not> validate_file_size c then (False, f3)
            else if \<not> validate_mime_type lb c then (False, f3)
            else if \<not> validate_content_safety c then (False, f3)
            else if \<not> validate_fbx_structure lb c then (False, f3)
            else (True, f3)))"

section \<open>Exceptions, file system and external processes\<close>

text \<open>
  A Python exception is a value. \<open>Exception\<close> stands for any exception derived from
  \<^verbatim>\<open>Exception\<close> other than \<^verbatim>\<open>subprocess.TimeoutExpired\<close>, which has a handler of its
  own in the source; \<open>BaseException\<close> stands for one that \<^verbatim>\<open>except Exception\<close> does not
  catch (\<^verbatim>\<open>KeyboardInterrupt\<close>, \<^verbatim>\<open>SystemExit\<close>). Each carries the text of \<^verbatim>\<open>str(e)\<close>.
\<close>

datatype exn = Exception string | TimeoutExpired string | BaseException string

fun str_exn :: "exn \<Rightarrow> string" where
  "str_exn (Exception m) = m"
| "str_exn (TimeoutExpired m) = m"
| "str_exn (BaseException m) = m"

fun is_Exception :: "exn \<Rightarrow> bool" where
  "is_Exception (Exception m) = True"
| "is_Exception (TimeoutExpired m) = True"
| "is_Exception (BaseException m) = False"

text \<open>
  The file system holds regular files (path and content, in creation order) and
  directories. Every effect on it is also recorded as an event, so that what a call did
  can be read off after temporary files are gone.
\<close>

datatype event =
    Mkdtemp string
  | Wrote string
  | Ran "string list"
  | Listed string
  | Copied string string
  | Rmtree string
  | Removed string
  | Zipped string
  | Saved string

record world =
  files :: "(string \<times> string) list"
  dirs :: "string list"
  events :: "event list"

text \<open>
  The environment of one call: which operating-system operations fail and with what
  exception (\<open>fault\<close>), the name \<^verbatim>\<open>tempfile.mkdtemp\<close> chooses, what the two external
  programs return and which files they leave in their working directory, the text of
  the generated Blender script, and the readings of the clocks and of \<^verbatim>\<open>uuid.uuid4()\<close>.
\<close>

datatype op =
    OpMkdtemp
  | OpWrite string
  | OpListdir string
  | OpCopy string string
  | OpMakedirs string
  | OpZip string
  | OpSave string
  | OpRemove string

datatype proc_result = Exited int string string | Raised exn

record env =
  fault :: "op \<Rightarrow> exn option"
  tempdir :: string
  temp_name :: string
  blender_script :: string
  blender_result :: proc_result
  blender_outputs :: "(string \<times> string) list"
  studiomdl_result :: proc_result
  studiomdl_outputs :: "(string \<times> string) list"
  hhmmss :: string
  clock :: real
  datetime_now :: int
  uuid4 :: string

definition emit :: "event \<Rightarrow> world \<Rightarrow> world" where
  "emit e w = w\<lparr>events := events w @ [e]\<rparr>"

definition path_exists :: "world \<Rightarrow> string \<Rightarrow> bool" where
  "path_exists w p = (p \<in> set (map fst (files w)) \<or> p \<in> set (dirs w))"

definition put_file :: "string \<Rightarrow> string \<Rightarrow> world \<Rightarrow> world" where
  "put_file p c w = w\<lparr>files := [x \<leftarrow> files w. fst x \<noteq> p] @ [(p, c)]\<rparr>"

definition open_write :: "env \<Rightarrow> string \<Rightarrow> string \<Rightarrow> world \<Rightarrow> (exn + unit) \<times> world" where
  "open_write E p c w =
     (case fault E (OpWrite p) of
        Some e \<Rightarrow> (Inl e, w)
      | None \<Rightarrow> (Inr (), emit (Wrote p) (put_file p c w)))"

definition under :: "string \<Rightarrow> string \<Rightarrow> bool" where
  "under d p = (p = d \<or> startswith p (d @ ''/''))"

definition rmtree :: "string \<Rightarrow> world \<Rightarrow> world" where
  "rmtree d w =
     emit (Rmtree d)
       (w\<lparr>files := [x \<leftarrow> files w. \<not> under d (fst x)], dirs := [q \<leftarrow> dirs w. \<not> under d q]\<rparr>)"

definition child_name :: "string \<Rightarrow> string \<Rightarrow> string option" where
  "child_name d p =
     (let n = drop (length d + 1) p
      in if startswith p (d @ ''/'') \<and> n \<noteq> [] \<and> CHR ''/'' \<notin> set n then Some n else None)"

definition listdir :: "env \<Rightarrow> string \<Rightarrow> world \<Rightarrow> (exn + string list) \<times> world" where
  "listdir E d w =
     (case fault E (OpListdir d) of
        Some e \<Rightarrow> (Inl e, w)
      | None \<Rightarrow> (Inr (List.map_filter (child_name d) (map fst (files w) @ dirs w)),
                 emit (Listed d) w))"

definition mkdtemp :: "env \<Rightarrow> string \<Rightarrow> world \<Rightarrow> (exn + string) \<times> world" where
  "mkdtemp E prefix w =
     (case fault E OpMkdtemp of
        Some e \<Rightarrow> (Inl e, w)
      | None \<Rightarrow>
          (let d = join (tempdir E) (prefix @ temp_name E)
           in (Inr d, emit (Mkdtemp d) (w\<lparr>dirs := dirs w @ [d]\<rparr>))))"

definition makedirs :: "env \<Rightarrow> string \<Rightarrow> world \<Rightarrow> (exn + unit) \<times> world" where
  "makedirs E d w =
     (case fault E (OpMakedirs d) of
        Some e \<Rightarrow> (Inl e, w)
      | None \<Rightarrow> (Inr (), if d \<in> set (dirs w) then w else w\<lparr>dirs := dirs w @ [d]\<rparr>))"

definition copy2 :: "env \<Rightarrow> string \<Rightarrow> string \<Rightarrow> world \<Rightarrow> (exn + unit) \<times> world" where
  "copy2 E src dst w =
     (case fault E (OpCopy src dst) of
        Some e \<Rightarrow> (Inl e, w)
      | None \<Rightarrow>
          (case map_of (files w) src of
             None \<Rightarrow> (Inl (Exception (''Not a regular file: '' @ src)), w)
           | Some c \<Rightarrow> (Inr (), emit (Copied src dst) (put_file dst c w))))"

definition os_remove :: "env \<Rightarrow> string \<Rightarrow> world \<Rightarrow> (exn + unit) \<times> world" where
  "os_remove E p w =
     (case fault E (OpRemove p) of
        Some e \<Rightarrow> (Inl e, w)
      | None \<Rightarrow> (Inr (), emit (Removed p) (w\<lparr>files := [x \<leftarrow> files w. fst x \<noteq> p]\<rparr>)))"

text \<open>
  \<^verbatim>\<open>subprocess.run(cmd, cwd=...)\<close>: the environment says how the process ends. A process
  that was started (it exited, or it was killed at the timeout) leaves its output files
  in the working directory.
\<close>

fun was_started :: "proc_result \<Rightarrow> bool" where
  "was_started (Exited rc out err) = True"
| "was_started (Raised (TimeoutExpired m)) = True"
| "was_started (Raised e) = False"

definition subprocess_run ::
  "string list \<Rightarrow> string \<Rightarrow> proc_result \<Rightarrow> (string \<times> string) list \<Rightarrow> world \<Rightarrow> proc_result \<times> world" where
  "subprocess_run cmd cwd res outputs w =
     (res, emit (Ran cmd)
        (if was_started res
         then fold (\<lambda>(n, c). put_file (join cwd n) c) outputs w
         else w))"

section \<open>Conversion pipeline (backend/fbx_processor.py, class FBXProcessor)\<close>

definition blender_path :: string where
  "blender_path = ''blender''"

definition wine_path :: string where
  "wine_path = ''wine''"

definition studiomdl_path :: string where
  "studiomdl_path = ''/usr/local/wine/cstrike/studiomdl.exe''"

text \<open>
  The handlers of the \<^verbatim>\<open>try\<close> blocks of \<^verbatim>\<open>_convert_fbx_to_smd\<close> and \<^verbatim>\<open>_compile_mdl\<close>: a
  timeout and any other \<^verbatim>\<open>Exception\<close> are raised again with a new message.
\<close>

fun reraise :: "string \<Rightarrow> string \<Rightarrow> exn \<Rightarrow> exn" where
  "reraise timed_out prefix (TimeoutExpired m) = Exception timed_out"
| "reraise timed_out prefix (Exception m) = Exception (prefix @ m)"
| "reraise timed_out prefix (BaseException m) = BaseException m"

definition blender_handler :: "exn \<Rightarrow> exn" where
  "blender_handler = reraise ''Blender conversion timed out'' ''Blender conversion error: ''"

definition convert_fbx_to_smd ::
  "env \<Rightarrow> string \<Rightarrow> string \<Rightarrow> world \<Rightarrow> (exn + string list) \<times> world" where
  "convert_fbx_to_smd E fbx_path output_dir w =
     (let script_path = join output_dir ''convert_script.py''
      in case open_write E script_path (blender_script E) w of
           (Inl e, w1) \<Rightarrow> (Inl e, w1)
         | (Inr u, w1) \<Rightarrow>
             (let cmd = [blender_path, ''--background'', ''--python'', script_path,
                         ''--'', fbx_path, output_dir]
              in case subprocess_run cmd output_dir (blender_result E) (blender_outputs E) w1 of
                   (Raised e, w2) \<Rightarrow> (Inl (blender_handler e), w2)
                 | (Exited rc out err, w2) \<Rightarrow>
                     if rc \<noteq> 0
                     then (Inl (blender_handler
                                 (Exception (''Blender conversion failed: '' @ err))), w2)
                     else
                       (case listdir E output_dir w2 of
                          (Inl e, w3) \<Rightarrow> (Inl (blender_handler e), w3)
                        | (Inr names, w3) \<Rightarrow>
                            (let smd_files =
                                   map (join output_dir) [f \<leftarrow> names. endswith f ''.smd'']
                             in if smd_files = []
                                then (Inl (blender_handler
                                            (Exception ''No SMD files were generated'')), w3)
                                else (Inr smd_files, w3)))))"

text \<open>
  The descriptor. \<open>classify_smd\<close> is the loop that selects the reference file and collects
  the animation files; \<open>qc_writes\<close> is the list of the strings passed to \<^verbatim>\<open>qc.write\<close>, in
  order, and the file holds their concatenation.
\<close>

definition dq :: char where
  "dq = CHR 0x22"

definition nl :: char where
  "nl = CHR 0x0A"

definition quoted :: "string \<Rightarrow> string" where
  "quoted s = dq # s @ [dq]"

definition truthy :: "string option \<Rightarrow> bool" where
  "truthy r = (case r of None \<Rightarrow> False | Some x \<Rightarrow> x \<noteq> [])"

fun classify_smd :: "string list \<Rightarrow> string option \<times> string list \<Rightarrow> string option \<times> string list" where
  "classify_smd [] acc = acc"
| "classify_smd (smd_file # rest) (ref_smd, anim_smds) =
     (let fname = basename smd_file
      in if contains fname ''_ref'' \<or> endswith fname ''_ref.smd''
         then classify_smd rest (Some fname, anim_smds)
         else classify_smd rest (ref_smd, anim_smds @ [fname]))"

definition sequence_name :: "string \<Rightarrow> string \<Rightarrow> string" where
  "sequence_name base_name anim_smd =
     (let anim_name = fst (splitext anim_smd)
      in if startswith anim_name (base_name @ ''_'')
         then drop (length base_name + 1) anim_name
         else anim_name)"

definition sequence_line :: "string \<Rightarrow> string \<Rightarrow> string" where
  "sequence_line name smd = ''$sequence '' @ quoted name @ '' '' @ quoted smd @ '' fps 30'' @ [nl]"

definition body_line :: "string \<Rightarrow> string \<Rightarrow> string" where
  "body_line bodygroup_name smd = ''$body '' @ quoted bodygroup_name @ '' '' @ quoted smd @ [nl, nl]"

definition qc_header :: "string \<Rightarrow> string \<Rightarrow> string list" where
  "qc_header base_name scale_text =
     [''$modelname '' @ quoted (base_name @ ''.mdl'') @ [nl],
      ''$cd '' @ quoted ''.'' @ [nl],
      ''$cdtexture '' @ quoted ''.'' @ [nl],
      ''$scale '' @ scale_text @ [nl, nl]]"

definition qc_footer :: "string list" where
  "qc_footer =
     [[nl],
      ''// GoldSrc compatibility settings'' @ [nl],
      ''$flags 0'' @ [nl],
      ''$origin 0 0 0'' @ [nl],
      ''$eyeposition 0 0 0'' @ [nl],
      ''$bbox 0 0 0 0 0 0'' @ [nl],
      ''$cbox 0 0 0 0 0 0'' @ [nl],
      nl # ''// Texture settings'' @ [nl],
      ''$texrendermode '' @ quoted ''default.bmp'' @ '' masked'' @ [nl],
      ''$texrendermode '' @ quoted ''default'' @ '' masked'' @ [nl]]"

definition select_reference :: "string list \<Rightarrow> string option \<times> string list" where
  "select_reference smd_files =
     (let (ref_smd, anim_smds) = classify_smd smd_files (None, [])
      in (if \<not> truthy ref_smd \<and> smd_files \<noteq> [] then Some (basename (hd smd_files)) else ref_smd,
          anim_smds))"

definition qc_writes :: "string \<Rightarrow> string list \<Rightarrow> string \<Rightarrow> string \<Rightarrow> string list" where
  "qc_writes base_name smd_files scale_text bodygroup_name =
     (let (ref_smd, anim_smds) = select_reference smd_files
      in qc_header base_name scale_text
         @ (if truthy ref_smd then [body_line bodygroup_name (the ref_smd)] else [])
         @ (if anim_smds \<noteq> []
            then map (\<lambda>anim_smd. sequence_line (sequence_name base_name anim_smd) anim_smd) anim_smds
            else if truthy ref_smd then [sequence_line ''idle'' (the ref_smd)] else [])
         @ qc_footer)"

definition generate_qc_file ::
  "env \<Rightarrow> string \<Rightarrow> string list \<Rightarrow> string \<Rightarrow> string \<Rightarrow> string \<Rightarrow> world \<Rightarrow> (exn + string) \<times> world" where
  "generate_qc_file E fbx_path smd_files output_dir scale_text bodygroup_name w =
     (let base_name = fst (splitext (basename fbx_path));
          qc_path = join output_dir (base_name @ ''.qc'')
      in case open_write E qc_path
                (concat (qc_writes base_name smd_files scale_text bodygroup_name)) w of
           (Inl e, w1) \<Rightarrow> (Inl e, w1)
         | (Inr u, w1) \<Rightarrow> (Inr qc_path, w1))"

text \<open>
  The compile stage. The log is written after \<^verbatim>\<open>subprocess.run\<close> has returned and
  before the return code is looked at.
\<close>

definition studiomdl_handler :: "exn \<Rightarrow> exn" where
  "studiomdl_handler = reraise ''studiomdl compilation timed out'' ''studiomdl compilation error: ''"

definition compile_log_text :: "string list \<Rightarrow> int \<Rightarrow> string \<Rightarrow> string \<Rightarrow> string" where
  "compile_log_text cmd rc out err =
     ''=== STUDIOMDL COMPILATION LOG ==='' @ [nl]
     @ ''Command: '' @ join_words cmd @ [nl]
     @ ''Return code: '' @ str_int rc @ [nl, nl]
     @ ''=== STDOUT ==='' @ [nl]
     @ out
     @ nl # ''=== STDERR ==='' @ [nl]
     @ err"

definition possible_extensions :: "string list" where
  "possible_extensions = [''.mdl'', ''.mdl.vtx'', ''.phy'', ''.vvd'']"

definition compile_mdl :: "env \<Rightarrow> string \<Rightarrow> string \<Rightarrow> world \<Rightarrow> (exn + string list) \<times> world" where
  "compile_mdl E qc_file output_dir w =
     (if \<not> path_exists w studiomdl_path
      then (Inl (Exception (''studiomdl.exe not found at '' @ studiomdl_path)), w)
      else
        (let cmd = [wine_path, studiomdl_path, basename qc_file]
         in case subprocess_run cmd output_dir (studiomdl_result E) (studiomdl_outputs E) w of
              (Raised e, w1) \<Rightarrow> (Inl (studiomdl_handler e), w1)
            | (Exited rc out err, w1) \<Rightarrow>
                (let log_path = join output_dir ''compile.log''
                 in case open_write E log_path (compile_log_text cmd rc out err) w1 of
                      (Inl e, w2) \<Rightarrow> (Inl (studiomdl_handler e), w2)
                    | (Inr u, w2) \<Rightarrow>
                        if rc \<noteq> 0
                        then (Inl (studiomdl_handler (Exception
                                ''studiomdl compilation failed. Check compile.log for details.'')), w2)
                        else
                          (let base_name = fst (splitext (basename qc_file));
                               generated_files =
                                 [f \<leftarrow> map (\<lambda>ext. join output_dir (base_name @ ext)) possible_extensions.
                                    path_exists w2 f] @ [log_path]
                           in if \<not> list_ex (\<lambda>f. endswith f ''.mdl'') generated_files
                              then (Inl (studiomdl_handler
                                          (Exception ''No MDL file was generated'')), w2)
                              else (Inr generated_files, w2)))))"

text \<open>
  The pipeline. The progress callback is an optional function that updates the data of
  the caller, of type \<open>'j\<close>. \<open>convert_body\<close> is the \<^verbatim>\<open>try\<close> block of
  \<^verbatim>\<open>convert_fbx_to_mdl\<close>; \<open>convert_fbx_to_mdl\<close> adds the call of \<^verbatim>\<open>mkdtemp\<close> before it, the
  \<^verbatim>\<open>except Exception\<close> handler and the \<^verbatim>\<open>finally\<close> block. \<^verbatim>\<open>shutil.rmtree\<close> removes the tree.
\<close>

datatype conv_result = ConvSuccess "string list" | ConvFailure string

definition report :: "(int \<Rightarrow> string \<Rightarrow> 'j \<Rightarrow> 'j) option \<Rightarrow> int \<Rightarrow> string \<Rightarrow> 'j \<Rightarrow> 'j" where
  "report cb p m j = (case cb of None \<Rightarrow> j | Some f \<Rightarrow> f p m j)"

fun copy_results ::
  "env \<Rightarrow> string \<Rightarrow> string list \<Rightarrow> string list \<Rightarrow> world \<Rightarrow> (exn + string list) \<times> world" where
  "copy_results E output_dir [] final_files w = (Inr final_files, w)"
| "copy_results E output_dir (file_path # rest) final_files w =
     (if path_exists w file_path
      then (let dest_path = join output_dir (basename file_path)
            in case copy2 E file_path dest_path w of
                 (Inl e, w1) \<Rightarrow> (Inl e, w1)
               | (Inr u, w1) \<Rightarrow> copy_results E output_dir rest (final_files @ [dest_path]) w1)
      else copy_results E output_dir rest final_files w)"

definition convert_body ::
  "env \<Rightarrow> string \<Rightarrow> string \<Rightarrow> string \<Rightarrow> string \<Rightarrow> (int \<Rightarrow> string \<Rightarrow> 'j \<Rightarrow> 'j) option \<Rightarrow> string
     \<Rightarrow> world \<times> 'j \<Rightarrow> (exn + string list) \<times> world \<times> 'j" where
  "convert_body E fbx_path output_dir scale_text bodygroup_name cb temp_dir S =
     (let j1 = report cb 10 ''Converting FBX to SMD using Blender...'' (snd S)
      in case convert_fbx_to_smd E fbx_path temp_dir (fst S) of
           (Inl e, w1) \<Rightarrow> (Inl e, w1, j1)
         | (Inr smd_files, w1) \<Rightarrow>
      (let j2 = report cb 40 ''Generating QC file...'' j1
       in case generate_qc_file E fbx_path smd_files temp_dir scale_text bodygroup_name w1 of
            (Inl e, w2) \<Rightarrow> (Inl e, w2, j2)
          | (Inr qc_file, w2) \<Rightarrow>
      (let j3 = report cb 60 ''Compiling MDL file...'' j2
       in case compile_mdl E qc_file temp_dir w2 of
            (Inl e, w3) \<Rightarrow> (Inl e, w3, j3)
          | (Inr mdl_files, w3) \<Rightarrow>
      (let j4 = report cb 90 ''Copying results...'' j3
       in case copy_results E output_dir (smd_files @ [qc_file] @ mdl_files) [] w3 of
            (Inl e, w4) \<Rightarrow> (Inl e, w4, j4)
          | (Inr final_files, w4) \<Rightarrow>
              (Inr final_files, w4, report cb 100 ''Conversion completed!'' j4)))))"

definition cleanup_temp :: "string \<Rightarrow> world \<Rightarrow> world" where
  "cleanup_temp temp_dir w = (if temp_dir \<noteq> [] \<and> path_exists w temp_dir then rmtree temp_dir w else w)"

definition convert_fbx_to_mdl ::
  "env \<Rightarrow> string \<Rightarrow> string \<Rightarrow> string \<Rightarrow> string \<Rightarrow> (int \<Rightarrow> string \<Rightarrow> 'j \<Rightarrow> 'j) option
     \<Rightarrow> world \<times> 'j \<Rightarrow> (exn + conv_result) \<times> world \<times> 'j" where
  "convert_fbx_to_mdl E fbx_path output_dir scale_text bodygroup_name cb S =
     (case mkdtemp E ''fbx_conversion_'' (fst S) of
        (Inl e, w0) \<Rightarrow> (Inl e, w0, snd S)
      | (Inr temp_dir, w0) \<Rightarrow>
          (case convert_body E fbx_path output_dir scale_text bodygroup_name cb temp_dir (w0, snd S) of
             (Inr final_files, w1, j1) \<Rightarrow>
               (Inr (ConvSuccess final_files), cleanup_temp temp_dir w1, j1)
           | (Inl e, w1, j1) \<Rightarrow>
               (if is_Exception e then Inr (ConvFailure (str_exn e)) else Inl e,
                cleanup_temp temp_dir w1, j1)))"

section \<open>Job registry and handlers (backend/app.py)\<close>

text \<open>
  \<^verbatim>\<open>datetime\<close> values are integers (microseconds). The table \<^verbatim>\<open>jobs\<close> is an association
  list in insertion order, as a Python \<^verbatim>\<open>dict\<close> is. \<open>trace\<close> is a history variable that is
  not in the source: every assignment to the \<^verbatim>\<open>status\<close> or the \<^verbatim>\<open>progress\<close> of a job
  appends the job's identifier, status and progress after the assignment.
\<close>

datatype status = Queued | Processing | Completed | Failed

record job =
  job_id :: string
  status :: status
  progress :: int
  job_log :: "string list"
  result_file :: "string option"
  error_message :: "string option"
  created_at :: int

record registry =
  jobs :: "(string \<times> job) list"
  trace :: "(string \<times> status \<times> int) list"

definition ConversionJob :: "string \<Rightarrow> int \<Rightarrow> job" where
  "ConversionJob jid now =
     \<lparr>job_id = jid, status = Queued, progress = 0, job_log = [], result_file = None,
      error_message = None, created_at = now\<rparr>"

definition observe :: "string \<Rightarrow> registry \<Rightarrow> registry" where
  "observe jid R =
     (case map_of (jobs R) jid of
        None \<Rightarrow> R
      | Some j \<Rightarrow> R\<lparr>trace := trace R @ [(jid, status j, progress j)]\<rparr>)"

definition update_job :: "string \<Rightarrow> (job \<Rightarrow> job) \<Rightarrow> registry \<Rightarrow> registry" where
  "update_job jid f R = R\<lparr>jobs := AList.map_entry jid f (jobs R)\<rparr>"

definition set_status :: "string \<Rightarrow> status \<Rightarrow> registry \<Rightarrow> registry" where
  "set_status jid st R = observe jid (update_job jid (\<lambda>j. j\<lparr>status := st\<rparr>) R)"

definition set_progress :: "string \<Rightarrow> int \<Rightarrow> registry \<Rightarrow> registry" where
  "set_progress jid p R = observe jid (update_job jid (\<lambda>j. j\<lparr>progress := p\<rparr>) R)"

definition append_log :: "string \<Rightarrow> string \<Rightarrow> registry \<Rightarrow> registry" where
  "append_log jid m R = update_job jid (\<lambda>j. j\<lparr>job_log := job_log j @ [m]\<rparr>) R"

definition progress_callback :: "env \<Rightarrow> string \<Rightarrow> int \<Rightarrow> string \<Rightarrow> registry \<Rightarrow> registry" where
  "progress_callback E jid p message R =
     append_log jid (''['' @ hhmmss E @ ''] '' @ message) (set_progress jid p R)"

definition create_result_zip ::
  "env \<Rightarrow> string list \<Rightarrow> string \<Rightarrow> string \<Rightarrow> world \<Rightarrow> (exn + unit) \<times> world" where
  "create_result_zip E result_files zip_path original_fbx_path w =
     (case fault E (OpZip zip_path) of
        Some e \<Rightarrow> (Inl e, w)
      | None \<Rightarrow>
          (let members = map basename [f \<leftarrow> result_files. path_exists w f]
                 @ (if path_exists w original_fbx_path
                    then [''original_'' @ basename original_fbx_path] else [])
           in (Inr (), emit (Zipped zip_path)
                 (put_file zip_path (concat (map (\<lambda>m. m @ [nl]) members)) w))))"

definition output_folder :: string where
  "output_folder = ''outputs''"

definition upload_folder :: string where
  "upload_folder = ''uploads''"

definition mark_failed :: "string \<Rightarrow> string \<Rightarrow> string \<Rightarrow> registry \<Rightarrow> registry" where
  "mark_failed jid msg line R =
     append_log jid line
       (update_job jid (\<lambda>j. j\<lparr>error_message := Some msg\<rparr>) (set_status jid Failed R))"

definition job_body ::
  "env \<Rightarrow> libs \<Rightarrow> string \<Rightarrow> string \<Rightarrow> pyfloat \<Rightarrow> string \<Rightarrow> world \<times> registry
     \<Rightarrow> exn option \<times> world \<times> registry" where
  "job_body E lb jid fbx_path scale bodygroup_name S =
     (let R1 = append_log jid (''Starting FBX processing for job '' @ jid)
                 (set_status jid Processing (snd S));
          output_dir = join output_folder jid
      in case makedirs E output_dir (fst S) of
           (Inl e, w1) \<Rightarrow> (Some e, w1, R1)
         | (Inr u, w1) \<Rightarrow>
             (case convert_fbx_to_mdl E fbx_path output_dir (float_str lb scale) bodygroup_name
                     (Some (progress_callback E jid)) (w1, R1) of
                (Inl e, w2, R2) \<Rightarrow> (Some e, w2, R2)
              | (Inr (ConvSuccess result_files), w2, R2) \<Rightarrow>
                  (let zip_path = join output_dir (jid @ ''_result.zip'')
                   in case create_result_zip E result_files zip_path fbx_path w2 of
                        (Inl e, w3) \<Rightarrow> (Some e, w3, R2)
                      | (Inr u, w3) \<Rightarrow>
                          (None, w3,
                           append_log jid ''Conversion completed successfully!''
                             (set_progress jid 100
                               (update_job jid (\<lambda>j. j\<lparr>result_file := Some zip_path\<rparr>)
                                 (set_status jid Completed R2)))))
              | (Inr (ConvFailure err), w2, R2) \<Rightarrow>
                  (None, w2, mark_failed jid err (''Conversion failed: '' @ err) R2)))"

definition cleanup_upload :: "env \<Rightarrow> string \<Rightarrow> world \<Rightarrow> exn option \<times> world" where
  "cleanup_upload E fbx_path w =
     (if path_exists w fbx_path
      then (case os_remove E fbx_path w of
              (Inl e, w1) \<Rightarrow> (if is_Exception e then None else Some e, w1)
            | (Inr u, w1) \<Rightarrow> (None, w1))
      else (None, w))"

definition process_fbx_job ::
  "env \<Rightarrow> libs \<Rightarrow> string \<Rightarrow> string \<Rightarrow> pyfloat \<Rightarrow> string \<Rightarrow> world \<times> registry
     \<Rightarrow> exn option \<times> world \<times> registry" where
  "process_fbx_job E lb jid fbx_path scale bodygroup_name S =
     (case map_of (jobs (snd S)) jid of
        None \<Rightarrow> (Some (Exception (''KeyError: '' @ jid)), S)
      | Some j0 \<Rightarrow>
          (case job_body E lb jid fbx_path scale bodygroup_name S of
             (r, w1, R1) \<Rightarrow>
               (let (raised, R2) =
                      (case r of
                         None \<Rightarrow> (None, R1)
                       | Some e \<Rightarrow>
                           if is_Exception e
                           then (None, mark_failed jid (str_exn e) (''Error: '' @ str_exn e) R1)
                           else (Some e, R1));
                    (raised_finally, w2) = cleanup_upload E fbx_path w1
                in (case raised_finally of Some e \<Rightarrow> Some e | None \<Rightarrow> raised, w2, R2))))"

text \<open>The upload handler. The thread it starts is returned as the task to run.\<close>

record request =
  remote_addr :: string
  forwarded_for :: "string option"
  file_part :: "file_handle option"
  form_scale :: "string option"
  form_bodygroup_name :: "string option"

record app =
  rate_limiter_of :: rate_limiter
  registry_of :: registry
  world_of :: world

datatype response = ErrorResponse nat string | UploadAccepted string

record task =
  task_job_id :: string
  task_fbx_path :: string
  task_scale :: pyfloat
  task_bodygroup_name :: string

fun scale_out_of_range :: "pyfloat \<Rightarrow> bool" where
  "scale_out_of_range (Finite x) = (x \<le> 0 \<or> x > 100)"
| "scale_out_of_range PosInf = True"
| "scale_out_of_range NegInf = True"
| "scale_out_of_range NaN = False"

definition file_save :: "env \<Rightarrow> file_handle \<Rightarrow> string \<Rightarrow> world \<Rightarrow> (exn + unit) \<times> world" where
  "file_save E file p w =
     (case fault E (OpSave p) of
        Some e \<Rightarrow> (Inl e, w)
      | None \<Rightarrow> (Inr (), emit (Saved p) (put_file p (drop (position file) (content file)) w)))"

definition client_key :: "request \<Rightarrow> string" where
  "client_key req = (case forwarded_for req of Some a \<Rightarrow> a | None \<Rightarrow> remote_addr req)"

definition upload_file :: "env \<Rightarrow> libs \<Rightarrow> request \<Rightarrow> app \<Rightarrow> (exn + response) \<times> app \<times> task option" where
  "upload_file E lb req A =
     (let client_ip = client_key req;
          (allowed, L1) = is_allowed (rate_limiter_of A) (clock E) client_ip;
          A1 = A\<lparr>rate_limiter_of := L1\<rparr>
      in if \<not> allowed
         then (Inr (ErrorResponse 429 ''Rate limit exceeded. Please wait before uploading again.''),
               A1, None)
         else
           (case file_part req of
              None \<Rightarrow> (Inr (ErrorResponse 400 ''No file provided''), A1, None)
            | Some file \<Rightarrow>
                if filename file = [] then (Inr (ErrorResponse 400 ''No file selected''), A1, None)
                else
                  (case validate_file lb file of
                     (False, file1) \<Rightarrow>
                       (Inr (ErrorResponse 400 ''Invalid file type or potentially malicious file''),
                        A1, None)
                   | (True, file1) \<Rightarrow>
                       (let scale_text = (case form_scale req of Some t \<Rightarrow> t | None \<Rightarrow> ''1.0'');
                            bodygroup_name =
                              (case form_bodygroup_name req of Some t \<Rightarrow> t | None \<Rightarrow> ''default'')
                        in case py_float lb scale_text of
                             None \<Rightarrow> (Inr (ErrorResponse 400 ''Invalid scale value''), A1, None)
                           | Some scale \<Rightarrow>
                               if scale_out_of_range scale
                               then (Inr (ErrorResponse 400 ''Scale must be between 0 and 100''),
                                     A1, None)
                               else
                                 (let jid = uuid4 E;
                                      R = registry_of A1;
                                      A2 = A1\<lparr>registry_of :=
                                              R\<lparr>jobs := AList.update jid
                                                   (ConversionJob jid (datetime_now E)) (jobs R)\<rparr>\<rparr>;
                                      fname = secure_filename lb (filename file1);
                                      upload_path = join upload_folder (jid @ ''_'' @ fname)
                                  in case file_save E file1 upload_path (world_of A2) of
                                       (Inl e, w1) \<Rightarrow>
                                         (if is_Exception e
                                          then Inr (ErrorResponse 500 ''Internal server error during upload'')
                                          else Inl e,
                                          A2\<lparr>world_of := w1\<rparr>, None)
                                     | (Inr u, w1) \<Rightarrow>
                                         (Inr (UploadAccepted jid), A2\<lparr>world_of := w1\<rparr>,
                                          Some \<lparr>task_job_id = jid, task_fbx_path = upload_path,
                                                task_scale = scale,
                                                task_bodygroup_name = bodygroup_name\<rparr>))))))"

definition run_task :: "env \<Rightarrow> libs \<Rightarrow> task \<Rightarrow> app \<Rightarrow> exn option \<times> app" where
  "run_task E lb t A =
     (case process_fbx_job E lb (task_job_id t) (task_fbx_path t) (task_scale t)
             (task_bodygroup_name t) (world_of A, registry_of A) of
        (r, w, R) \<Rightarrow> (r, A\<lparr>world_of := w, registry_of := R\<rparr>))"








text \<open>
  The progress checkpoints of the pipeline, in the order of the source, and the registry
  after the callback of a job has been called for the first \<open>k\<close> of them.
\<close>

definition checkpoints :: "(int \<times> string) list" where
  "checkpoints =
     [(10, ''Converting FBX to SMD using Blender...''), (40, ''Generating QC file...''),
      (60, ''Compiling MDL file...''), (90, ''Copying results...''),
      (100, ''Conversion completed!'')]"

definition reported :: "(int \<Rightarrow> string \<Rightarrow> 'j \<Rightarrow> 'j) option \<Rightarrow> nat \<Rightarrow> 'j \<Rightarrow> 'j" where
  "reported cb k j = foldl (\<lambda>x c. report cb (fst c) (snd c) x) j (take k checkpoints)"

definition progress_after :: "nat \<Rightarrow> int" where
  "progress_after k = last (0 # map fst (take k checkpoints))"

text \<open>The status and the progress of a job of the registry, when the job is there.\<close>

definition job_state :: "registry \<Rightarrow> string \<Rightarrow> (status \<times> int) option" where
  "job_state R jid = map_option (\<lambda>j. (status j, progress j)) (map_of (jobs R) jid)"

definition result_zip_path :: "string \<Rightarrow> string" where
  "result_zip_path jid = join (join output_folder jid) (jid @ ''_result.zip'')"

section \<open>Concrete inputs\<close>

text \<open>The inputs at which the theorems below are instantiated.\<close>

definition calls0 :: "(real \<times> string) list" where
  "calls0 = [(0, ''a''), (1, ''a''), (2, ''a''), (10, ''a''), (21/2, ''a''), (11, ''a'')]"

definition libs0 :: libs where
  "libs0 =
     \<lparr>magic_from_buffer = (\<lambda>c. Some ''application/octet-stream''),
      utf8_decode_ignore = (\<lambda>c. c),
      py_float = (\<lambda>t. if t = ''1.0'' then Some (Finite 1) else None),
      float_str = (\<lambda>x. ''1.0''),
      secure_filename = (\<lambda>n. n)\<rparr>"

definition env0 :: env where
  "env0 =
     \<lparr>fault = (\<lambda>x. None), tempdir = ''/tmp'', temp_name = ''k3'',
      blender_script = ''import bpy'',
      blender_result = Exited 0 ''done'' [],
      blender_outputs = [(''model_ref.smd'', ''version 1''), (''model_idle.smd'', ''version 1'')],
      studiomdl_result = Exited 0 ''ok'' [],
      studiomdl_outputs = [(''j1_m.mdl'', ''IDST'')],
      hhmmss = ''12:00:00'', clock = 100, datetime_now = 0, uuid4 = ''j1''\<rparr>"

definition world0 :: world where
  "world0 =
     \<lparr>files = [(studiomdl_path, ''MZ''), (''uploads/j1_m.fbx'', ''Kaydara FBX Binary'')],
      dirs = [''uploads'', ''outputs''], events = []\<rparr>"

definition registry0 :: registry where
  "registry0 = \<lparr>jobs = [(''j1'', ConversionJob ''j1'' 0)], trace = []\<rparr>"


definition app0 :: app where
  "app0 =
     \<lparr>rate_limiter_of = RateLimiter_default,
      registry_of = \<lparr>jobs = [], trace = []\<rparr>,
      world_of = world0\<rparr>"

definition request_no_file :: request where
  "request_no_file =
     \<lparr>remote_addr = ''10.0.0.1'', forwarded_for = None, file_part = None,
      form_scale = None, form_bodygroup_name = None\<rparr>"

definition file_short :: file_handle where
  "file_short = \<lparr>filename = ''model.fbx'', content = ''abc'', position = 2\<rparr>"

definition env_timeout :: env where
  "env_timeout = env0\<lparr>studiomdl_result := Raised (TimeoutExpired ''timed out after 120 seconds'')\<rparr>"

definition env_no_smd :: env where
  "env_no_smd = env0\<lparr>blender_outputs := [(''blender.log'', ''nothing exported'')]\<rparr>"

definition env_copy_interrupted :: env where
  "env_copy_interrupted =
     env0\<lparr>fault := (\<lambda>x. case x of OpCopy src dst \<Rightarrow> Some (BaseException ''KeyboardInterrupt'')
                              | _ \<Rightarrow> None)\<rparr>"

definition env_zip_fails :: env where
  "env_zip_fails =
     env0\<lparr>fault := (\<lambda>x. case x of OpZip p \<Rightarrow> Some (Exception ''No space left on device'')
                              | _ \<Rightarrow> None)\<rparr>"

definition env_save_fails :: env where
  "env_save_fails =
     env0\<lparr>fault := (\<lambda>x. case x of OpSave p \<Rightarrow> Some (Exception ''No space left on device'')
                              | _ \<Rightarrow> None)\<rparr>"

definition file_binary_fbx :: file_handle where
  "file_binary_fbx =
     \<lparr>filename = ''m.fbx'', content = ''Kaydara FBX Binary'' @ replicate 1100 (CHR ''a''),
      position = 0\<rparr>"

definition request_upload :: request where
  "request_upload =
     \<lparr>remote_addr = ''10.0.0.1'', forwarded_for = None, file_part = Some file_binary_fbx,
      form_scale = None, form_bodygroup_name = None\<rparr>"


definition env_later :: env where
  "env_later = env0\<lparr>clock := 5000\<rparr>"

definition app_stale :: app where
  "app_stale =
     app0\<lparr>rate_limiter_of :=
            RateLimiter_default\<lparr>requests := (\<lambda>ip. if ip = ''10.0.0.1'' then [0, 1, 2] else [])\<rparr>\<rparr>"

definition env_zip_interrupted :: env where
  "env_zip_interrupted =
     env0\<lparr>fault := (\<lambda>x. case x of OpZip p \<Rightarrow> Some (BaseException ''KeyboardInterrupt'')
                              | _ \<Rightarrow> None)\<rparr>"

section \<open>The rate limiter admits at most \<open>max_requests\<close> calls per window\<close>

lemma is_allowed_fields [simp]:
  "max_requests (snd (is_allowed L now ip)) = max_requests L"
  "time_window (snd (is_allowed L now ip)) = time_window L"
  by (simp_all add: is_allowed_def Let_def)

lemma is_allowed_other [simp]:
  "k \<noteq> ip \<Longrightarrow> requests (snd (is_allowed L now ip)) k = requests L k"
  by (simp add: is_allowed_def Let_def)

lemma is_allowed_same:
  "requests (snd (is_allowed L now ip)) ip =
     clean_old L now ip @ (if fst (is_allowed L now ip) then [now] else [])"
  by (simp add: is_allowed_def Let_def)

lemma is_allowed_iff:
  "fst (is_allowed L now ip) \<longleftrightarrow> int (length (clean_old L now ip)) < max_requests L"
  by (simp add: is_allowed_def Let_def)

lemma serve_all_snoc: "serve_all L (cs @ [c]) = serve (serve_all L cs) c"
  by (simp add: serve_all_def)

lemma serve_fst: "fst (serve S c) = snd (is_allowed (fst S) (fst c) (snd c))"
  by (simp add: serve_def split: prod.splits)

lemma serve_snd:
  "snd (serve S c) = snd S @ (if fst (is_allowed (fst S) (fst c) (snd c)) then [c] else [])"
  by (simp add: serve_def split: prod.splits)

lemma serve_all_fields [simp]:
  "max_requests (fst (serve_all L cs)) = max_requests L"
  "time_window (fst (serve_all L cs)) = time_window L"
  by (induction cs rule: rev_induct) (simp_all add: serve_all_snoc serve_fst, simp_all add: serve_all_def)

lemma admitted_subset: "set (snd (serve_all L cs)) \<subseteq> set cs"
  by (induction cs rule: rev_induct) (auto simp: serve_all_snoc serve_snd, simp add: serve_all_def)

lemma filter_refine:
  "(\<And>x. x \<in> set xs \<Longrightarrow> P x \<Longrightarrow> Q x) \<Longrightarrow> filter P xs = filter P (filter Q xs)"
  by (induction xs) auto

lemma length_filter_mono:
  "(\<And>x. x \<in> set xs \<Longrightarrow> P x \<Longrightarrow> Q x) \<Longrightarrow> length (filter P xs) \<le> length (filter Q xs)"
  by (induction xs) auto

lemma window_invariant:
  assumes "sorted (map fst cs)" and "\<forall>c \<in> set cs. fst c \<le> T" and "requests L = (\<lambda>_. [])"
  shows "[t \<leftarrow> requests (fst (serve_all L cs)) k. T - t < time_window L] =
         [t \<leftarrow> admitted_of (snd (serve_all L cs)) k. T - t < time_window L]"
  using assms(1,2)
proof (induction cs arbitrary: T rule: rev_induct)
  case Nil
  show ?case using assms(3) by (simp add: serve_all_def admitted_of_def)
next
  case (snoc c cs)
  obtain now ip where c: "c = (now, ip)" by (cases c)
  let ?S = "serve_all L cs"
  let ?W = "time_window L"
  from snoc.prems have srt: "sorted (map fst cs)" and le: "\<forall>x \<in> set cs. fst x \<le> now"
    and nowT: "now \<le> T"
    by (auto simp: c sorted_append)
  have IH: "[t \<leftarrow> requests (fst ?S) k. now - t < ?W] = [t \<leftarrow> admitted_of (snd ?S) k. now - t < ?W]"
    by (rule snoc.IH [OF srt le])
  have ref1: "[t \<leftarrow> requests (fst ?S) k. T - t < ?W]
      = [t \<leftarrow> [t \<leftarrow> requests (fst ?S) k. now - t < ?W]. T - t < ?W]"
    by (rule filter_refine) (use nowT in auto)
  have ref2: "[t \<leftarrow> admitted_of (snd ?S) k. T - t < ?W]
      = [t \<leftarrow> [t \<leftarrow> admitted_of (snd ?S) k. now - t < ?W]. T - t < ?W]"
    by (rule filter_refine) (use nowT in auto)
  have old: "[t \<leftarrow> requests (fst ?S) k. T - t < ?W] = [t \<leftarrow> admitted_of (snd ?S) k. T - t < ?W]"
    using ref1 ref2 IH by simp
  show ?case
  proof (cases "k = ip")
    case False
    then show ?thesis
      using old by (simp add: serve_all_snoc serve_fst serve_snd c admitted_of_def)
  next
    case True
    have "[t \<leftarrow> clean_old (fst ?S) now ip. T - t < ?W] = [t \<leftarrow> requests (fst ?S) k. T - t < ?W]"
      using ref1 by (simp add: clean_old_def True)
    then show ?thesis
      using old by (simp add: serve_all_snoc serve_fst serve_snd c admitted_of_def is_allowed_same True)
  qed
qed

lemma admitted_bound:
  assumes "sorted (map fst cs)" and "requests L = (\<lambda>_. [])" and "0 \<le> max_requests L"
  shows "int (length (admitted_in (snd (serve_all L cs)) k a (time_window L))) \<le> max_requests L"
  using assms(1)
proof (induction cs arbitrary: a rule: rev_induct)
  case Nil
  show ?case using assms(3) by (simp add: serve_all_def admitted_in_def admitted_of_def)
next
  case (snoc c cs)
  obtain now ip where c: "c = (now, ip)" by (cases c)
  let ?S = "serve_all L cs"
  let ?W = "time_window L"
  from snoc.prems have srt: "sorted (map fst cs)" and le: "\<forall>x \<in> set cs. fst x \<le> now"
    by (auto simp: c sorted_append)
  have IH: "int (length (admitted_in (snd ?S) k a ?W)) \<le> max_requests L"
    by (rule snoc.IH [OF srt])
  show ?case
  proof (cases "fst (is_allowed (fst ?S) now ip) \<and> ip = k \<and> a \<le> now \<and> now < a + ?W")
    case False
    then show ?thesis
      using IH by (auto simp: serve_all_snoc serve_snd c admitted_in_def admitted_of_def)
  next
    case True
    have adm_le: "\<forall>t \<in> set (admitted_of (snd ?S) k). t \<le> now"
      using admitted_subset [of L cs] le by (fastforce simp: admitted_of_def)
    have unf: "admitted_in (snd ?S) k a ?W = [t \<leftarrow> admitted_of (snd ?S) k. a \<le> t \<and> t < a + ?W]"
      by (simp add: admitted_in_def)
    have "length (admitted_in (snd ?S) k a ?W) \<le> length [t \<leftarrow> admitted_of (snd ?S) k. now - t < ?W]"
      using length_filter_mono [of "admitted_of (snd ?S) k" "\<lambda>t. a \<le> t \<and> t < a + ?W" "\<lambda>t. now - t < ?W"]
        adm_le True unfolding unf by fastforce
    then have "length (admitted_in (snd ?S) k a ?W) \<le> length (clean_old (fst ?S) now k)"
      using window_invariant [OF srt le assms(2), of k] by (simp add: clean_old_def)
    moreover have "int (length (clean_old (fst ?S) now k)) < max_requests L"
      using True by (auto simp: is_allowed_iff)
    ultimately have "int (length (admitted_in (snd ?S) k a ?W)) < max_requests L"
      by linarith
    moreover have "admitted_in (snd (serve_all L (cs @ [c])) ) k a ?W = admitted_in (snd ?S) k a ?W @ [now]"
    proof -
      from True have ok: "fst (is_allowed (fst ?S) now k)" and rng: "a \<le> now" "now < a + ?W"
        and ipk: "ip = k" by auto
      show ?thesis
        by (simp add: serve_all_snoc serve_snd c admitted_in_def admitted_of_def ipk ok rng)
    qed
    ultimately show ?thesis by simp
  qed
qed


lemma stored_bound:
  assumes "requests L = (\<lambda>_. [])"
  shows "int (length (requests (fst (serve_all L cs)) k)) \<le> max 0 (max_requests L)"
proof (induction cs rule: rev_induct)
  case Nil
  show ?case using assms by (simp add: serve_all_def)
next
  case (snoc c cs)
  obtain now ip where c: "c = (now, ip)" by (cases c)
  let ?S = "serve_all L cs"
  show ?case
  proof (cases "k = ip")
    case False
    then show ?thesis using snoc.IH by (simp add: serve_all_snoc serve_fst c)
  next
    case True
    have "length (clean_old (fst ?S) now ip) \<le> length (requests (fst ?S) ip)"
      by (simp add: clean_old_def)
    then show ?thesis
      using snoc.IH True
      by (auto simp: serve_all_snoc serve_fst c is_allowed_same is_allowed_iff)
  qed
qed

lemma min_list_mem: "xs \<noteq> [] \<Longrightarrow> min_list xs \<in> set (xs :: real list)"
  using Min_in [of "set xs"] by (simp add: min_list_Min)

lemma filter_drops_one:
  "x \<in> set xs \<Longrightarrow> \<not> P x \<Longrightarrow> length (filter P xs) < length xs"
  by (induction xs) (auto simp: less_Suc_eq_le)

text \<open>
  Claim C1. Let the calls to \<open>is_allowed\<close> be made at non-decreasing clock readings on a
  fresh limiter with \<open>max_requests = n \<ge> 0\<close> and \<open>time_window = w\<close>. Then, for every client
  \<open>k\<close>: (1) in every interval \<open>[a, a + w)\<close> at most \<open>n\<close> calls of \<open>k\<close> were admitted; (2) a
  call made when \<open>n\<close> admitted calls of \<open>k\<close> lie within the trailing window
  (\<open>now - t < w\<close>) returns false and stores the pruned list, with nothing appended; (3) a
  call made once \<open>w\<close> has elapsed since the oldest stored timestamp of \<open>k\<close> is admitted;
  (4) every call first prunes the timestamps with \<open>now - t \<ge> w\<close>, admits iff fewer than
  \<open>max_requests\<close> remain, and appends \<open>now\<close> only on admission.
\<close>

theorem rate_limit_sliding_window:
  assumes "sorted (map fst cs)" and "0 \<le> n"
  shows "(\<forall>a. int (length (admitted_in (snd (serve_all (RateLimiter_init n w) cs)) k a w)) \<le> n)
       \<and> (\<forall>now. (\<forall>c \<in> set cs. fst c \<le> now)
               \<and> n \<le> int (length [t \<leftarrow> admitted_of (snd (serve_all (RateLimiter_init n w) cs)) k. now - t < w])
            \<longrightarrow> is_allowed (fst (serve_all (RateLimiter_init n w) cs)) now k
                = (False, (fst (serve_all (RateLimiter_init n w) cs))
                     \<lparr>requests := (requests (fst (serve_all (RateLimiter_init n w) cs)))
                        (k := clean_old (fst (serve_all (RateLimiter_init n w) cs)) now k)\<rparr>))
       \<and> (\<forall>now. requests (fst (serve_all (RateLimiter_init n w) cs)) k \<noteq> []
               \<and> w \<le> now - min_list (requests (fst (serve_all (RateLimiter_init n w) cs)) k)
            \<longrightarrow> fst (is_allowed (fst (serve_all (RateLimiter_init n w) cs)) now k))
       \<and> (\<forall>L now. clean_old L now k = [t \<leftarrow> requests L k. now - t < time_window L]
            \<and> (fst (is_allowed L now k) \<longleftrightarrow> int (length (clean_old L now k)) < max_requests L)
            \<and> requests (snd (is_allowed L now k)) k
                = clean_old L now k @ (if fst (is_allowed L now k) then [now] else []))"
proof -
  let ?L = "RateLimiter_init n w"
  let ?S = "serve_all ?L cs"
  have init: "requests ?L = (\<lambda>_. [])" and mx: "max_requests ?L = n" and tw: "time_window ?L = w"
    by (simp_all add: RateLimiter_init_def)
  have mxS: "max_requests (fst ?S) = n" and twS: "time_window (fst ?S) = w"
    by (simp_all add: mx tw)
  have p1: "\<forall>a. int (length (admitted_in (snd ?S) k a w)) \<le> n"
    using admitted_bound [OF assms(1) init, of k] assms(2) by (simp add: mx tw)
  have p2: "is_allowed (fst ?S) now k
              = (False, (fst ?S)\<lparr>requests := (requests (fst ?S))(k := clean_old (fst ?S) now k)\<rparr>)"
    if le: "\<forall>c \<in> set cs. fst c \<le> now"
      and full: "n \<le> int (length [t \<leftarrow> admitted_of (snd ?S) k. now - t < w])" for now
  proof -
    have "clean_old (fst ?S) now k = [t \<leftarrow> admitted_of (snd ?S) k. now - t < w]"
      using window_invariant [OF assms(1) le init, of k] by (simp add: clean_old_def twS tw)
    then have "\<not> int (length (clean_old (fst ?S) now k)) < max_requests (fst ?S)"
      using full by (simp add: mx)
    then show ?thesis
      by (simp add: is_allowed_def Let_def)
  qed
  have p3: "fst (is_allowed (fst ?S) now k)"
    if ne: "requests (fst ?S) k \<noteq> []" and el: "w \<le> now - min_list (requests (fst ?S) k)" for now
  proof -
    have "min_list (requests (fst ?S) k) \<in> set (requests (fst ?S) k)"
      by (rule min_list_mem [OF ne])
    then have "length (clean_old (fst ?S) now k) < length (requests (fst ?S) k)"
      unfolding clean_old_def using el by (intro filter_drops_one) (auto simp: tw)
    moreover have "int (length (requests (fst ?S) k)) \<le> max 0 n"
      using stored_bound [OF init, of cs k] by (simp add: mx)
    ultimately show ?thesis
      using assms(2) by (simp add: is_allowed_iff mx)
  qed
  have p4: "\<forall>L now. clean_old L now k = [t \<leftarrow> requests L k. now - t < time_window L]
            \<and> (fst (is_allowed L now k) \<longleftrightarrow> int (length (clean_old L now k)) < max_requests L)
            \<and> requests (snd (is_allowed L now k)) k
                = clean_old L now k @ (if fst (is_allowed L now k) then [now] else [])"
    using is_allowed_iff is_allowed_same by (simp add: clean_old_def)
  from p1 p2 p3 p4 show ?thesis by blast
qed

theorem rate_limit_sliding_window_witness:
  "sorted (map fst calls0) \<and> (0::int) \<le> 2
   \<and> snd (serve_all (RateLimiter_init 2 10) calls0) = [(0, ''a''), (1, ''a''), (10, ''a''), (11, ''a'')]
   \<and> int (length (admitted_in (snd (serve_all (RateLimiter_init 2 10) calls0)) ''a'' 1 10)) \<le> 2
   \<and> fst (is_allowed (fst (serve_all (RateLimiter_init 2 10) calls0)) 12 ''a'') = False
   \<and> fst (is_allowed (fst (serve_all (RateLimiter_init 2 10) calls0)) 20 ''a'')"
proof -
  let ?S = "serve_all (RateLimiter_init 2 10) calls0"
  have srt: "sorted (map fst calls0)" by (simp add: calls0_def)
  have adm: "snd ?S = [(0, ''a''), (1, ''a''), (10, ''a''), (11, ''a'')]"
    by (simp add: calls0_def serve_all_def serve_def is_allowed_def clean_old_def
        RateLimiter_init_def Let_def)
  have req: "requests (fst ?S) ''a'' = [10, 11]"
    by (simp add: calls0_def serve_all_def serve_def is_allowed_def clean_old_def
        RateLimiter_init_def Let_def)
  have n0: "(0::int) \<le> 2" by simp
  note inst = rate_limit_sliding_window [OF srt n0, where w = 10 and k = "''a''"]
  have c1: "int (length (admitted_in (snd ?S) ''a'' 1 10)) \<le> 2"
    using inst by blast
  have h2: "(\<forall>c \<in> set calls0. fst c \<le> 12)
      \<and> 2 \<le> int (length [t \<leftarrow> admitted_of (snd ?S) ''a''. 12 - t < 10])"
    by (simp add: adm admitted_of_def) (simp add: calls0_def)
  have "is_allowed (fst ?S) 12 ''a''
      = (False, (fst ?S)\<lparr>requests := (requests (fst ?S))(''a'' := clean_old (fst ?S) 12 ''a'')\<rparr>)"
    using inst h2 by blast
  then have c2: "fst (is_allowed (fst ?S) 12 ''a'') = False" by simp
  have h3: "requests (fst ?S) ''a'' \<noteq> [] \<and> 10 \<le> 20 - min_list (requests (fst ?S) ''a'')"
    by (simp add: req)
  have c3: "fst (is_allowed (fst ?S) 20 ''a'')"
    using inst h3 by blast
  from srt adm c1 c2 c3 show ?thesis by simp
qed


section \<open>Reset time of the rate limiter\<close>

text \<open>
  Claim C8, as amended. \<open>get_reset_time\<close> reads the stored list of the client as the
  last pruning call left it (it does not prune, and it does not read the clock): it
  returns the least stored timestamp plus \<open>time_window\<close>, and it returns 0 when the list is
  empty.
\<close>

theorem get_reset_time_stored:
  "get_reset_time L ip =
     (if requests L ip = [] then 0 else Min (set (requests L ip)) + time_window L)
   \<and> (requests L ip \<noteq> [] \<longrightarrow>
        get_reset_time L ip - time_window L \<in> set (requests L ip)
        \<and> (\<forall>t \<in> set (requests L ip). get_reset_time L ip \<le> t + time_window L))"
proof (cases "requests L ip = []")
  case True
  then show ?thesis by (simp add: get_reset_time_def)
next
  case False
  then have m: "min_list (requests L ip) = Min (set (requests L ip))"
    by (rule min_list_Min)
  have "Min (set (requests L ip)) \<in> set (requests L ip)"
    using False by (intro Min_in) auto
  moreover have "\<forall>t \<in> set (requests L ip). Min (set (requests L ip)) \<le> t"
    by simp
  ultimately show ?thesis
    using False by (simp add: get_reset_time_def m)
qed

theorem get_reset_time_stored_witness:
  "requests (snd (is_allowed RateLimiter_default 100 ''10.0.0.1'')) ''10.0.0.1'' = [100]
   \<and> get_reset_time (snd (is_allowed RateLimiter_default 100 ''10.0.0.1'')) ''10.0.0.1'' = 3700"
proof -
  let ?L = "snd (is_allowed RateLimiter_default 100 ''10.0.0.1'')"
  have r: "requests ?L ''10.0.0.1'' = [100]" and w: "time_window RateLimiter_default = 3600"
    by (simp_all add: is_allowed_def clean_old_def RateLimiter_default_def RateLimiter_init_def Let_def)
  show ?thesis
    using get_reset_time_stored [of ?L "''10.0.0.1''"] by (simp add: r w)
qed

text \<open>
  Claim C8 as stated fails: for a client with no timestamps the result is 0, not the
  current time (here 1700000000).
\<close>

theorem get_reset_time_empty_counterexample:
  "get_reset_time RateLimiter_default ''10.0.0.1'' = 0
   \<and> get_reset_time RateLimiter_default ''10.0.0.1'' \<noteq> 1700000000"
  by (simp add: get_reset_time_def RateLimiter_default_def RateLimiter_init_def)


section \<open>Rejected uploads and the rate limit\<close>

lemma timestamp_retained:
  assumes "x \<in> set (requests L ip)" and "\<forall>c \<in> set cs. fst c - x < time_window L"
  shows "x \<in> set (requests (fst (serve_all L cs)) ip)"
  using assms(2)
proof (induction cs rule: rev_induct)
  case Nil
  show ?case using assms(1) by (simp add: serve_all_def)
next
  case (snoc c cs)
  obtain now k where c: "c = (now, k)" by (cases c)
  let ?S = "serve_all L cs"
  from snoc have IH: "x \<in> set (requests (fst ?S) ip)" and fresh: "now - x < time_window L"
    by (auto simp: c)
  show ?case
  proof (cases "ip = k")
    case False
    then show ?thesis using IH by (simp add: serve_all_snoc serve_fst c)
  next
    case True
    have "x \<in> set (clean_old (fst ?S) now k)"
      using IH fresh True by (simp add: clean_old_def)
    then show ?thesis
      using True by (simp add: serve_all_snoc serve_fst c is_allowed_same)
  qed
qed

text \<open>
  Claim C10, as amended. When the upload handler answers 400 (no file, empty file name,
  file validation failure, or a scale that does not parse or is out of range), the client
  was admitted by the rate limiter, and its stored list is the pruned list (the stored
  timestamps \<open>x\<close> with \<open>now - x < time_window\<close>) with the current time appended: one longer
  than the pruned list. No job was created and no task started. The appended timestamp
  counts for the remainder of the window: after any further calls of the limiter made
  less than \<open>time_window\<close> after it, a call made less than \<open>time_window\<close> after it still
  retains it when pruning, and admits iff the retained timestamps, the appended one among
  them, are fewer than \<open>max_requests\<close>.
\<close>

theorem rejected_upload_consumes_quota:
  assumes "upload_file E lb req A = (Inr (ErrorResponse 400 msg), A', t)"
  shows "fst (is_allowed (rate_limiter_of A) (clock E) (client_key req))
       \<and> requests (rate_limiter_of A') (client_key req)
           = clean_old (rate_limiter_of A) (clock E) (client_key req) @ [clock E]
       \<and> clean_old (rate_limiter_of A) (clock E) (client_key req)
           = [x \<leftarrow> requests (rate_limiter_of A) (client_key req).
                clock E - x < time_window (rate_limiter_of A)]
       \<and> length (requests (rate_limiter_of A') (client_key req))
           = Suc (length (clean_old (rate_limiter_of A) (clock E) (client_key req)))
       \<and> registry_of A' = registry_of A \<and> world_of A' = world_of A \<and> t = None
       \<and> msg \<in> {''No file provided'', ''No file selected'',
                 ''Invalid file type or potentially malicious file'',
                 ''Invalid scale value'', ''Scale must be between 0 and 100''}
       \<and> (\<forall>cs later.
             (\<forall>c \<in> set cs. fst c - clock E < time_window (rate_limiter_of A))
             \<and> later - clock E < time_window (rate_limiter_of A)
           \<longrightarrow> clock E \<in> set (clean_old (fst (serve_all (rate_limiter_of A') cs)) later (client_key req))
               \<and> (fst (is_allowed (fst (serve_all (rate_limiter_of A') cs)) later (client_key req))
                    \<longleftrightarrow> int (length (clean_old (fst (serve_all (rate_limiter_of A') cs)) later
                                       (client_key req)))
                          < max_requests (rate_limiter_of A)))"
proof -
  let ?ip = "client_key req"
  let ?L = "rate_limiter_of A"
  obtain ok L1 where ia: "is_allowed ?L (clock E) ?ip = (ok, L1)"
    by (cases "is_allowed ?L (clock E) ?ip")
  have ok: "ok"
    using assms by (auto simp: upload_file_def ia Let_def split: if_splits)
  have L1: "requests L1 ?ip = clean_old ?L (clock E) ?ip @ [clock E]"
    using is_allowed_same [of ?L "clock E" ?ip] ia ok by simp
  have fields: "time_window L1 = time_window ?L" "max_requests L1 = max_requests ?L"
    using is_allowed_fields [of ?L "clock E" ?ip] ia by simp_all
  have rest: "A' = A\<lparr>rate_limiter_of := L1\<rparr> \<and> t = None
      \<and> msg \<in> {''No file provided'', ''No file selected'',
                 ''Invalid file type or potentially malicious file'',
                 ''Invalid scale value'', ''Scale must be between 0 and 100''}"
    using assms ok
    by (auto simp: upload_file_def ia Let_def
        split: if_splits option.splits prod.splits bool.splits sum.splits)
  then have A': "rate_limiter_of A' = L1" by simp
  have later: "clock E \<in> set (clean_old (fst (serve_all L1 cs)) later ?ip)
      \<and> (fst (is_allowed (fst (serve_all L1 cs)) later ?ip)
            \<longleftrightarrow> int (length (clean_old (fst (serve_all L1 cs)) later ?ip)) < max_requests ?L)"
    if cs: "\<forall>c \<in> set cs. fst c - clock E < time_window ?L"
      and lt: "later - clock E < time_window ?L" for cs later
  proof -
    have "clock E \<in> set (requests L1 ?ip)" by (simp add: L1)
    then have "clock E \<in> set (requests (fst (serve_all L1 cs)) ?ip)"
      using cs by (intro timestamp_retained) (simp_all add: fields)
    then have "clock E \<in> set (clean_old (fst (serve_all L1 cs)) later ?ip)"
      using lt by (simp add: clean_old_def fields)
    then show ?thesis
      by (simp add: is_allowed_iff fields)
  qed
  have pruned: "clean_old ?L (clock E) ?ip = [x \<leftarrow> requests ?L ?ip. clock E - x < time_window ?L]"
    by (simp add: clean_old_def)
  show ?thesis
    using ok L1 rest ia pruned later unfolding A' by simp
qed

theorem rejected_upload_consumes_quota_witness:
  "fst (upload_file env0 libs0 request_no_file app0) = Inr (ErrorResponse 400 ''No file provided'')
   \<and> requests (rate_limiter_of (fst (snd (upload_file env0 libs0 request_no_file app0)))) ''10.0.0.1''
       = [100]
   \<and> 100 \<in> set (clean_old
        (fst (serve_all (rate_limiter_of (fst (snd (upload_file env0 libs0 request_no_file app0))))
               [(200, ''10.0.0.1''), (250, ''10.0.0.2'')]))
        300 ''10.0.0.1'')"
proof -
  obtain A' t where eq: "upload_file env0 libs0 request_no_file app0
      = (Inr (ErrorResponse 400 ''No file provided''), A', t)"
    by (simp add: upload_file_def request_no_file_def app0_def env0_def client_key_def
        is_allowed_def clean_old_def RateLimiter_default_def RateLimiter_init_def Let_def)
  have key: "client_key request_no_file = ''10.0.0.1''"
    by (simp add: client_key_def request_no_file_def)
  have old: "clean_old (rate_limiter_of app0) 100 ''10.0.0.1'' = []"
    by (simp add: clean_old_def app0_def RateLimiter_default_def RateLimiter_init_def)
  have ck: "clock env0 = 100" by (simp add: env0_def)
  have tw: "time_window (rate_limiter_of app0) = 3600"
    by (simp add: app0_def RateLimiter_default_def RateLimiter_init_def)
  note inst = rejected_upload_consumes_quota [OF eq, unfolded key ck]
  have r: "requests (rate_limiter_of A') ''10.0.0.1'' = [100]"
    using inst by (simp add: old)
  have h: "(\<forall>c \<in> set [(200 :: real, ''10.0.0.1''), (250, ''10.0.0.2'')]. fst c - 100 < time_window (rate_limiter_of app0))
      \<and> (300 :: real) - 100 < time_window (rate_limiter_of app0)"
    by (simp add: tw)
  have "100 \<in> set (clean_old (fst (serve_all (rate_limiter_of A')
               [(200, ''10.0.0.1''), (250, ''10.0.0.2'')])) 300 ''10.0.0.1'')"
    using inst h by blast
  then show ?thesis using r by (simp add: eq)
qed

text \<open>
  Claim C10 as stated fails: the stored list of the client does not always grow by one.
  With three stored timestamps older than the window, a rejected upload leaves a stored
  list of length one.
\<close>

theorem rejected_upload_list_shrinks_counterexample:
  "requests (rate_limiter_of app_stale) ''10.0.0.1'' = [0, 1, 2]
   \<and> fst (upload_file env_later libs0 request_no_file app_stale)
       = Inr (ErrorResponse 400 ''No file provided'')
   \<and> requests (rate_limiter_of (fst (snd (upload_file env_later libs0 request_no_file app_stale))))
        ''10.0.0.1'' = [5000]"
  by (simp add: upload_file_def request_no_file_def app_stale_def app0_def env_later_def env0_def
      client_key_def is_allowed_def clean_old_def RateLimiter_default_def RateLimiter_init_def Let_def)

section \<open>The validator and the read position\<close>

text \<open>
  Claim C3, as amended. The result of \<open>validate_file\<close> depends on the name and the bytes
  of the file only, not on the read position; name and bytes are left as they were.
  After the call the read position is 0 whenever the content was read (a non-empty name
  with an allowed extension), and it is unchanged otherwise.
\<close>

theorem validate_file_resets_position:
  "fst (validate_file lb (f\<lparr>position := p\<rparr>)) = fst (validate_file lb (f\<lparr>position := q\<rparr>))
   \<and> position (snd (validate_file lb f))
       = (if filename f \<noteq> [] \<and> validate_extension (filename f) then 0 else position f)
   \<and> filename (snd (validate_file lb f)) = filename f
   \<and> content (snd (validate_file lb f)) = content f"
  by (simp add: validate_file_def seek_def read_def Let_def)

theorem validate_file_resets_position_witness:
  "position (snd (validate_file libs0 file_short)) = 0
   \<and> position (snd (validate_file libs0 (file_short\<lparr>filename := ''notes.txt''\<rparr>))) = 2
   \<and> fst (validate_file libs0 (file_short\<lparr>position := 0\<rparr>))
       = fst (validate_file libs0 (file_short\<lparr>position := 3\<rparr>))"
proof -
  have e1: "validate_extension (filename file_short)"
    by (simp add: file_short_def validate_extension_def lower_def lower_char_def splitext_def
        basename_def allowed_extensions_def)
  have e2: "\<not> validate_extension ''notes.txt''"
    by (simp add: validate_extension_def lower_def lower_char_def splitext_def
        basename_def allowed_extensions_def)
  have n: "filename file_short \<noteq> []" and p: "position file_short = 2"
    by (simp_all add: file_short_def)
  show ?thesis
    using validate_file_resets_position [where lb = libs0 and f = file_short and p = 0 and q = 3]
      validate_file_resets_position
        [where lb = libs0 and f = "file_short\<lparr>filename := ''notes.txt''\<rparr>" and p = 0 and q = 3]
    by (simp add: e1 e2 n p)
qed

text \<open>
  Claim C3 as stated fails: a handle that was at position 2 before the call is at
  position 0 after it.
\<close>

theorem validate_file_position_counterexample:
  "position file_short = 2 \<and> position (snd (validate_file libs0 file_short)) \<noteq> 2"
  by (simp add: validate_file_def seek_def read_def Let_def file_short_def validate_extension_def
      lower_def lower_char_def splitext_def basename_def allowed_extensions_def)

section \<open>Status queries and eviction\<close>



lemma map_of_Some_mem: "map_of xs k = Some v \<Longrightarrow> (k, v) \<in> set xs"
  by (rule map_of_SomeD)




section \<open>Facts about strings, files and events\<close>

lemma startswith_iff: "startswith s p \<longleftrightarrow> (\<exists>r. s = p @ r)"
  by (induction s p rule: startswith.induct) auto

lemma contains_iff: "contains s p \<longleftrightarrow> (\<exists>a r. s = a @ p @ r)"
proof (induction s)
  case Nil
  then show ?case by auto
next
  case (Cons c s)
  show ?case
  proof
    assume "contains (c # s) p"
    then consider "startswith (c # s) p" | "contains s p" by auto
    then show "\<exists>a r. c # s = a @ p @ r"
    proof cases
      case 1
      then obtain r where "c # s = p @ r" by (auto simp: startswith_iff)
      then have "c # s = [] @ p @ r" by simp
      then show ?thesis by blast
    next
      case 2
      then obtain a r where "s = a @ p @ r" using Cons.IH by auto
      then have "c # s = (c # a) @ p @ r" by simp
      then show ?thesis by blast
    qed
  next
    assume "\<exists>a r. c # s = a @ p @ r"
    then obtain a r where eq: "c # s = a @ p @ r" by auto
    show "contains (c # s) p"
    proof (cases a)
      case Nil
      then have "startswith (c # s) p" using eq by (auto simp: startswith_iff)
      then show ?thesis by simp
    next
      case (Cons x a')
      then have "s = a' @ p @ r" using eq by simp
      then have "contains s p" using Cons.IH by blast
      then show ?thesis by simp
    qed
  qed
qed


lemma emit_files [simp]: "files (emit e w) = files w"
  by (simp add: emit_def)

lemma emit_events [simp]: "events (emit e w) = events w @ [e]"
  by (simp add: emit_def)

lemma put_file_events [simp]: "events (put_file p c w) = events w"
  by (simp add: put_file_def)

lemma fold_put_file_events [simp]:
  "events (fold (\<lambda>(n, c). put_file (g n) c) outs w) = events w"
  by (induction outs arbitrary: w) (auto simp: split_def)

lemma subprocess_run_fst [simp]: "fst (subprocess_run cmd cwd res outs w) = res"
  by (simp add: subprocess_run_def)

section \<open>The compile log\<close>




section \<open>Stage 1 without intermediate files, and removal of the scratch directory\<close>

lemma join_prefix_nonempty: "b \<noteq> [] \<Longrightarrow> join a b \<noteq> []"
  by (simp add: join_def)

lemma put_file_dirs [simp]: "dirs (put_file p c w) = dirs w"
  by (simp add: put_file_def)

lemma emit_dirs [simp]: "dirs (emit e w) = dirs w"
  by (simp add: emit_def)

lemma fold_put_file_dirs [simp]:
  "dirs (fold (\<lambda>(n, c). put_file (g n) c) outs w) = dirs w"
  by (induction outs arbitrary: w) (auto simp: split_def)

lemma mkdtemp_result:
  assumes "mkdtemp E prefix w = (Inr d, w0)"
  shows "d = join (tempdir E) (prefix @ temp_name E)"
    and "w0 = emit (Mkdtemp d) (w\<lparr>dirs := dirs w @ [d]\<rparr>)"
  using assms by (auto simp: mkdtemp_def Let_def split: option.splits)

lemma cleanup_temp_removes: "d \<noteq> [] \<Longrightarrow> \<not> path_exists (cleanup_temp d w) d"
  by (auto simp: cleanup_temp_def rmtree_def path_exists_def emit_def under_def)

lemma cleanup_temp_removes_under:
  "d \<noteq> [] \<Longrightarrow> under d p \<Longrightarrow> \<not> path_exists (cleanup_temp d w) p \<or> \<not> path_exists w d"
  by (auto simp: cleanup_temp_def rmtree_def path_exists_def emit_def)

lemma convert_cleans:
  assumes "mkdtemp E ''fbx_conversion_'' (fst S) = (Inr d, w0)"
  shows "\<not> path_exists (fst (snd (convert_fbx_to_mdl E fbx out sc bg cb S))) d"
proof -
  have "d \<noteq> []"
    using mkdtemp_result(1) [OF assms] by (simp add: join_prefix_nonempty)
  then show ?thesis
    using assms
    by (auto simp: convert_fbx_to_mdl_def cleanup_temp_removes split: prod.splits sum.splits)
qed


text \<open>
  Claim C4. (1) Let the scratch directory \<open>d\<close> be created, the Blender script be written,
  Blender exit with code 0, and the listing of \<open>d\<close> taken afterwards hold no name ending in
  \<^verbatim>\<open>.smd\<close>. Then \<open>convert_fbx_to_mdl\<close> returns the failure
  \<^verbatim>\<open>Blender conversion error: No SMD files were generated\<close>, the progress callback was called
  for checkpoint 10 only, and the effects of the call are exactly: creating \<open>d\<close>, writing the
  script, running Blender, listing \<open>d\<close> and removing \<open>d\<close>; so no descriptor is written and
  no compiler is run. (2) Whatever the environment does afterwards and however the call
  ends (a result with success, a result with failure, or an exception that passes through),
  the scratch directory that was created does not exist when the call is over.
\<close>

theorem no_smd_aborts_and_scratch_removed:
  "(mkdtemp E ''fbx_conversion_'' w = (Inr d, w0)
      \<and> open_write E (join d ''convert_script.py'') (blender_script E) w0 = (Inr (), w1)
      \<and> subprocess_run [blender_path, ''--background'', ''--python'', join d ''convert_script.py'',
                          ''--'', fbx, d] d (blender_result E) (blender_outputs E) w1
           = (Exited 0 out err, w2)
      \<and> listdir E d w2 = (Inr names, w3)
      \<and> [f \<leftarrow> names. endswith f ''.smd''] = []
    \<longrightarrow> convert_fbx_to_mdl E fbx outdir sc bg cb (w, j)
          = (Inr (ConvFailure ''Blender conversion error: No SMD files were generated''),
             cleanup_temp d w3,
             report cb 10 ''Converting FBX to SMD using Blender...'' j)
        \<and> events (cleanup_temp d w3)
          = events w @ [Mkdtemp d, Wrote (join d ''convert_script.py''),
                        Ran [blender_path, ''--background'', ''--python'',
                             join d ''convert_script.py'', ''--'', fbx, d],
                        Listed d, Rmtree d])
   \<and> (mkdtemp E ''fbx_conversion_'' w = (Inr d, w0)
        \<longrightarrow> \<not> path_exists (fst (snd (convert_fbx_to_mdl E fbx outdir sc bg cb (w, j)))) d)"
proof -
  let ?script = "join d ''convert_script.py''"
  let ?cmd = "[blender_path, ''--background'', ''--python'', ?script, ''--'', fbx, d]"
  have a: "convert_fbx_to_mdl E fbx outdir sc bg cb (w, j)
          = (Inr (ConvFailure ''Blender conversion error: No SMD files were generated''),
             cleanup_temp d w3, report cb 10 ''Converting FBX to SMD using Blender...'' j)
        \<and> events (cleanup_temp d w3)
          = events w @ [Mkdtemp d, Wrote ?script, Ran ?cmd, Listed d, Rmtree d]"
    if mk: "mkdtemp E ''fbx_conversion_'' w = (Inr d, w0)"
      and wr: "open_write E ?script (blender_script E) w0 = (Inr (), w1)"
      and run: "subprocess_run ?cmd d (blender_result E) (blender_outputs E) w1 = (Exited 0 out err, w2)"
      and ls: "listdir E d w2 = (Inr names, w3)"
      and none: "[f \<leftarrow> names. endswith f ''.smd''] = []"
  proof -
    have s1: "convert_fbx_to_smd E fbx d w0
        = (Inl (Exception ''Blender conversion error: No SMD files were generated''), w3)"
      by (simp add: convert_fbx_to_smd_def Let_def wr run ls none blender_handler_def)
    have res: "convert_fbx_to_mdl E fbx outdir sc bg cb (w, j)
          = (Inr (ConvFailure ''Blender conversion error: No SMD files were generated''),
             cleanup_temp d w3, report cb 10 ''Converting FBX to SMD using Blender...'' j)"
      by (simp add: convert_fbx_to_mdl_def convert_body_def mk s1 Let_def)
    have d_ne: "d \<noteq> []"
      using mkdtemp_result(1) [OF mk] by (simp add: join_prefix_nonempty)
    have e0: "events w0 = events w @ [Mkdtemp d]" and d0: "d \<in> set (dirs w0)"
      using mkdtemp_result(2) [OF mk] by (simp_all add: emit_def)
    have e1: "events w1 = events w0 @ [Wrote ?script]" and d1: "dirs w1 = dirs w0"
      using wr by (auto simp: open_write_def emit_def put_file_def split: option.splits)
    have e2: "events w2 = events w1 @ [Ran ?cmd]" and d2: "dirs w2 = dirs w1"
      using run by (auto simp: subprocess_run_def)
    have e3: "events w3 = events w2 @ [Listed d]" and d3: "dirs w3 = dirs w2"
      using ls by (auto simp: listdir_def emit_def split: option.splits)
    have "path_exists w3 d"
      using d0 d1 d2 d3 by (simp add: path_exists_def)
    then have "events (cleanup_temp d w3) = events w3 @ [Rmtree d]"
      using d_ne by (simp add: cleanup_temp_def rmtree_def emit_def)
    then show ?thesis
      using res e0 e1 e2 e3 by simp
  qed
  have b: "\<not> path_exists (fst (snd (convert_fbx_to_mdl E fbx outdir sc bg cb (w, j)))) d"
    if mk: "mkdtemp E ''fbx_conversion_'' w = (Inr d, w0)"
    using convert_cleans [of E "(w, j)" d w0] mk by simp
  from a b show ?thesis by blast
qed


lemmas eval_defs =
  convert_fbx_to_mdl_def convert_body_def convert_fbx_to_smd_def generate_qc_file_def compile_mdl_def
  mkdtemp_def open_write_def subprocess_run_def listdir_def copy2_def cleanup_temp_def rmtree_def
  emit_def put_file_def path_exists_def under_def child_name_def report_def
  blender_handler_def studiomdl_handler_def join_def endswith_def basename_def splitext_def
  blender_path_def wine_path_def studiomdl_path_def possible_extensions_def
  List.map_filter_def Let_def

theorem no_smd_aborts_and_scratch_removed_witness:
  "convert_fbx_to_mdl env_no_smd ''uploads/j1_m.fbx'' ''outputs/j1'' ''1.0'' ''default''
       (Some (\<lambda>p m ps. ps @ [p])) (world0, [])
     = (Inr (ConvFailure ''Blender conversion error: No SMD files were generated''),
        world0\<lparr>events := [Mkdtemp ''/tmp/fbx_conversion_k3'',
                             Wrote ''/tmp/fbx_conversion_k3/convert_script.py'',
                             Ran [''blender'', ''--background'', ''--python'',
                                  ''/tmp/fbx_conversion_k3/convert_script.py'', ''--'',
                                  ''uploads/j1_m.fbx'', ''/tmp/fbx_conversion_k3''],
                             Listed ''/tmp/fbx_conversion_k3'', Rmtree ''/tmp/fbx_conversion_k3'']\<rparr>,
        [10])
   \<and> \<not> path_exists (fst (snd (convert_fbx_to_mdl env0 ''uploads/j1_m.fbx'' ''outputs/j1'' ''1.0''
           ''default'' (Some (\<lambda>p m ps. ps @ [p])) (world0, [])))) ''/tmp/fbx_conversion_k3''
   \<and> \<not> path_exists (fst (snd (convert_fbx_to_mdl env_timeout ''uploads/j1_m.fbx'' ''outputs/j1'' ''1.0''
           ''default'' (Some (\<lambda>p m ps. ps @ [p])) (world0, [])))) ''/tmp/fbx_conversion_k3''
   \<and> \<not> path_exists (fst (snd (convert_fbx_to_mdl env_copy_interrupted ''uploads/j1_m.fbx'' ''outputs/j1''
           ''1.0'' ''default'' (Some (\<lambda>p m ps. ps @ [p])) (world0, [])))) ''/tmp/fbx_conversion_k3''"
proof -
  let ?d = "''/tmp/fbx_conversion_k3''"
  let ?script = "''/tmp/fbx_conversion_k3/convert_script.py''"
  let ?cmd = "[blender_path, ''--background'', ''--python'', join ?d ''convert_script.py'', ''--'',
               ''uploads/j1_m.fbx'', ?d]"
  let ?cb = "Some (\<lambda>(p::int) (m::string) ps. ps @ [p])"
  define w0 where "w0 = snd (mkdtemp env_no_smd ''fbx_conversion_'' world0)"
  define w1 where "w1 = snd (open_write env_no_smd (join ?d ''convert_script.py'') (blender_script env_no_smd) w0)"
  define w2 where "w2 = snd (subprocess_run ?cmd ?d (blender_result env_no_smd) (blender_outputs env_no_smd) w1)"
  define w3 where "w3 = snd (listdir env_no_smd ?d w2)"
  have mk: "mkdtemp E ''fbx_conversion_'' world0 = (Inr ?d, snd (mkdtemp E ''fbx_conversion_'' world0))"
    if "fault E OpMkdtemp = None" "tempdir E = ''/tmp''" "temp_name E = ''k3''" for E
    using that by (simp add: mkdtemp_def join_def endswith_def Let_def)
  have mk0: "mkdtemp env_no_smd ''fbx_conversion_'' world0 = (Inr ?d, w0)"
    unfolding w0_def by (rule mk) (simp_all add: env_no_smd_def env0_def)
  have wr: "open_write env_no_smd (join ?d ''convert_script.py'') (blender_script env_no_smd) w0 = (Inr (), w1)"
    unfolding w1_def by (simp add: open_write_def env_no_smd_def env0_def)
  have run: "subprocess_run ?cmd ?d (blender_result env_no_smd) (blender_outputs env_no_smd) w1
      = (Exited 0 ''done'' [], w2)"
    unfolding w2_def by (simp add: subprocess_run_def env_no_smd_def env0_def)
  have names: "fst (listdir env_no_smd ?d w2) = Inr [''convert_script.py'', ''blender.log'']"
    unfolding w2_def w1_def w0_def
    by (simp add: eval_defs env_no_smd_def env0_def world0_def)
  have ls: "listdir env_no_smd ?d w2 = (Inr [''convert_script.py'', ''blender.log''], w3)"
    unfolding w3_def using names by (simp add: prod_eq_iff)
  have none: "[f \<leftarrow> [''convert_script.py'', ''blender.log'']. endswith f ''.smd''] = []"
    by (simp add: endswith_def)
  have w3: "cleanup_temp ?d w3 = world0\<lparr>events := [Mkdtemp ?d, Wrote ?script,
                             Ran [''blender'', ''--background'', ''--python'', ?script, ''--'',
                                  ''uploads/j1_m.fbx'', ?d],
                             Listed ?d, Rmtree ?d]\<rparr>"
    unfolding w3_def w2_def w1_def w0_def
    by (simp add: eval_defs env_no_smd_def env0_def world0_def)
  have c1: "convert_fbx_to_mdl env_no_smd ''uploads/j1_m.fbx'' ''outputs/j1'' ''1.0'' ''default'' ?cb (world0, [])
     = (Inr (ConvFailure ''Blender conversion error: No SMD files were generated''),
        cleanup_temp ?d w3, [10])"
    using no_smd_aborts_and_scratch_removed
            [where E = env_no_smd and w = world0 and d = ?d and ?w0.0 = w0 and ?w1.0 = w1 and ?w2.0 = w2
               and ?w3.0 = w3 and fbx = "''uploads/j1_m.fbx''" and out = "''done''" and err = "[]"
               and names = "[''convert_script.py'', ''blender.log'']" and outdir = "''outputs/j1''"
               and sc = "''1.0''" and bg = "''default''" and cb = ?cb and j = "[]"]
          mk0 wr run ls none
    by (simp add: report_def)
  have c2: "\<not> path_exists (fst (snd (convert_fbx_to_mdl E ''uploads/j1_m.fbx'' ''outputs/j1'' ''1.0''
           ''default'' ?cb (world0, [])))) ?d"
    if "fault E OpMkdtemp = None" "tempdir E = ''/tmp''" "temp_name E = ''k3''" for E
    using no_smd_aborts_and_scratch_removed
            [where E = E and w = world0 and d = ?d and ?w0.0 = "snd (mkdtemp E ''fbx_conversion_'' world0)"
               and fbx = "''uploads/j1_m.fbx''" and outdir = "''outputs/j1''"
               and sc = "''1.0''" and bg = "''default''" and cb = ?cb and j = "[]"]
          mk [OF that]
    by blast
  have "\<not> path_exists (fst (snd (convert_fbx_to_mdl env0 ''uploads/j1_m.fbx'' ''outputs/j1'' ''1.0''
           ''default'' ?cb (world0, [])))) ?d"
    by (rule c2) (simp_all add: env0_def)
  moreover have "\<not> path_exists (fst (snd (convert_fbx_to_mdl env_timeout ''uploads/j1_m.fbx'' ''outputs/j1'' ''1.0''
           ''default'' ?cb (world0, [])))) ?d"
    by (rule c2) (simp_all add: env_timeout_def env0_def)
  moreover have "\<not> path_exists (fst (snd (convert_fbx_to_mdl env_copy_interrupted ''uploads/j1_m.fbx'' ''outputs/j1'' ''1.0''
           ''default'' ?cb (world0, [])))) ?d"
    by (rule c2) (simp_all add: env_copy_interrupted_def env0_def)
  ultimately show ?thesis
    using c1 w3 by simp
qed

section \<open>Progress of a job\<close>

lemma reported_simps:
  "reported cb 0 j = j"
  "reported cb (Suc 0) j = report cb 10 ''Converting FBX to SMD using Blender...'' j"
  "reported cb 2 j = report cb 40 ''Generating QC file...'' (reported cb 1 j)"
  "reported cb 3 j = report cb 60 ''Compiling MDL file...'' (reported cb 2 j)"
  "reported cb 4 j = report cb 90 ''Copying results...'' (reported cb 3 j)"
  "reported cb 5 j = report cb 100 ''Conversion completed!'' (reported cb 4 j)"
  by (simp_all add: reported_def checkpoints_def numeral_eq_Suc)

lemma convert_body_reports:
  "\<exists>k. snd (snd (convert_body E fbx out sc bg cb d S)) = reported cb k (snd S)
       \<and> 1 \<le> k \<and> k \<le> 5 \<and> (k = 5 \<longleftrightarrow> (\<exists>fs. fst (convert_body E fbx out sc bg cb d S) = Inr fs))"
proof -
  let ?j = "snd S"
  show ?thesis
  proof (cases "convert_fbx_to_smd E fbx d (fst S)")
    case s1: (Pair r1 w1)
    show ?thesis
    proof (cases r1)
      case (Inl e)
      then have "snd (snd (convert_body E fbx out sc bg cb d S)) = reported cb 1 ?j"
        and "fst (convert_body E fbx out sc bg cb d S) = Inl e"
        by (simp_all add: convert_body_def s1 Let_def reported_simps)
      then show ?thesis by (intro exI [of _ 1]) simp
    next
      case (Inr smd)
      show ?thesis
      proof (cases "generate_qc_file E fbx smd d sc bg w1")
        case s2: (Pair r2 w2)
        show ?thesis
        proof (cases r2)
          case (Inl e)
          then have "snd (snd (convert_body E fbx out sc bg cb d S)) = reported cb 2 ?j"
            and "fst (convert_body E fbx out sc bg cb d S) = Inl e"
            by (simp_all add: convert_body_def s1 s2 Inr Let_def reported_simps)
          then show ?thesis by (intro exI [of _ 2]) simp
        next
          case qc: (Inr qc)
          show ?thesis
          proof (cases "compile_mdl E qc d w2")
            case s3: (Pair r3 w3)
            show ?thesis
            proof (cases r3)
              case (Inl e)
              then have "snd (snd (convert_body E fbx out sc bg cb d S)) = reported cb 3 ?j"
                and "fst (convert_body E fbx out sc bg cb d S) = Inl e"
                by (simp_all add: convert_body_def s1 s2 s3 Inr qc Let_def reported_simps)
              then show ?thesis by (intro exI [of _ 3]) simp
            next
              case mdl: (Inr mdl)
              show ?thesis
              proof (cases "copy_results E out (smd @ [qc] @ mdl) [] w3")
                case s4: (Pair r4 w4)
                show ?thesis
                proof (cases r4)
                  case (Inl e)
                  then have "snd (snd (convert_body E fbx out sc bg cb d S)) = reported cb 4 ?j"
                    and "fst (convert_body E fbx out sc bg cb d S) = Inl e"
                    using s4
                    by (simp_all add: convert_body_def s1 s2 s3 Inr qc mdl Let_def reported_simps)
                  then show ?thesis by (intro exI [of _ 4]) simp
                next
                  case fin: (Inr fin)
                  then have "snd (snd (convert_body E fbx out sc bg cb d S)) = reported cb 5 ?j"
                    and "fst (convert_body E fbx out sc bg cb d S) = Inr fin"
                    using s4
                    by (simp_all add: convert_body_def s1 s2 s3 Inr qc mdl Let_def reported_simps)
                  then show ?thesis by (intro exI [of _ 5]) simp
                qed
              qed
            qed
          qed
        qed
      qed
    qed
  qed
qed

lemma convert_reports:
  "\<exists>k. snd (snd (convert_fbx_to_mdl E fbx out sc bg cb S)) = reported cb k (snd S)
       \<and> k \<le> 5 \<and> (k = 5 \<longleftrightarrow> (\<exists>fs. fst (convert_fbx_to_mdl E fbx out sc bg cb S) = Inr (ConvSuccess fs)))"
proof (cases "mkdtemp E ''fbx_conversion_'' (fst S)")
  case mk: (Pair r0 w0)
  show ?thesis
  proof (cases r0)
    case (Inl e)
    then have "snd (snd (convert_fbx_to_mdl E fbx out sc bg cb S)) = reported cb 0 (snd S)"
      and "fst (convert_fbx_to_mdl E fbx out sc bg cb S) = Inl e"
      by (simp_all add: convert_fbx_to_mdl_def mk reported_simps)
    then show ?thesis by (intro exI [of _ 0]) simp
  next
    case (Inr d)
    obtain k where k: "snd (snd (convert_body E fbx out sc bg cb d (w0, snd S))) = reported cb k (snd S)"
      "k \<le> 5" "k = 5 \<longleftrightarrow> (\<exists>fs. fst (convert_body E fbx out sc bg cb d (w0, snd S)) = Inr fs)"
      using convert_body_reports [of E fbx out sc bg cb d "(w0, snd S)"] by auto
    obtain r w1 j1 where cb: "convert_body E fbx out sc bg cb d (w0, snd S) = (r, w1, j1)"
      by (cases "convert_body E fbx out sc bg cb d (w0, snd S)")
    have "snd (snd (convert_fbx_to_mdl E fbx out sc bg cb S)) = reported cb k (snd S)"
      using k(1) by (cases r) (simp_all add: convert_fbx_to_mdl_def mk Inr cb)
    moreover have "(\<exists>fs. fst (convert_fbx_to_mdl E fbx out sc bg cb S) = Inr (ConvSuccess fs))
        \<longleftrightarrow> (\<exists>fs. r = Inr fs)"
      by (cases r) (auto simp: convert_fbx_to_mdl_def mk Inr cb)
    ultimately show ?thesis
      using k(2,3) cb by (intro exI [of _ k]) simp
  qed
qed

lemma job_state_update_job:
  assumes "job_state R jid = Some (st, p)"
    and "\<And>j. status (f j) = g (status j)" and "\<And>j. progress (f j) = h (progress j)"
  shows "job_state (update_job jid f R) jid = Some (g st, h p)"
    and "trace (update_job jid f R) = trace R"
  using assms by (auto simp: job_state_def update_job_def map_of_map_entry split: option.splits)

lemma observe_state:
  assumes "job_state R jid = Some (st, p)"
  shows "job_state (observe jid R) jid = Some (st, p)"
    and "trace (observe jid R) = trace R @ [(jid, st, p)]"
  using assms by (auto simp: job_state_def observe_def split: option.splits)

lemma set_progress_state:
  assumes "job_state R jid = Some (st, p)"
  shows "job_state (set_progress jid q R) jid = Some (st, q)"
    and "trace (set_progress jid q R) = trace R @ [(jid, st, q)]"
proof -
  have u: "job_state (update_job jid (\<lambda>j. j\<lparr>progress := q\<rparr>) R) jid = Some (st, q)"
    and t: "trace (update_job jid (\<lambda>j. j\<lparr>progress := q\<rparr>) R) = trace R"
    using job_state_update_job [OF assms, of "\<lambda>j. j\<lparr>progress := q\<rparr>" "\<lambda>x. x" "\<lambda>x. q"] by simp_all
  show "job_state (set_progress jid q R) jid = Some (st, q)"
    and "trace (set_progress jid q R) = trace R @ [(jid, st, q)]"
    using observe_state [OF u] t by (simp_all add: set_progress_def)
qed

lemma set_status_state:
  assumes "job_state R jid = Some (st, p)"
  shows "job_state (set_status jid st' R) jid = Some (st', p)"
    and "trace (set_status jid st' R) = trace R @ [(jid, st', p)]"
proof -
  have u: "job_state (update_job jid (\<lambda>j. j\<lparr>status := st'\<rparr>) R) jid = Some (st', p)"
    and t: "trace (update_job jid (\<lambda>j. j\<lparr>status := st'\<rparr>) R) = trace R"
    using job_state_update_job [OF assms, of "\<lambda>j. j\<lparr>status := st'\<rparr>" "\<lambda>x. st'" "\<lambda>x. x"] by simp_all
  show "job_state (set_status jid st' R) jid = Some (st', p)"
    and "trace (set_status jid st' R) = trace R @ [(jid, st', p)]"
    using observe_state [OF u] t by (simp_all add: set_status_def)
qed

lemma append_log_state:
  assumes "job_state R jid = Some (st, p)"
  shows "job_state (append_log jid m R) jid = Some (st, p)"
    and "trace (append_log jid m R) = trace R"
  using job_state_update_job [OF assms, of "\<lambda>j. j\<lparr>job_log := job_log j @ [m]\<rparr>" "\<lambda>x. x" "\<lambda>x. x"]
  by (simp_all add: append_log_def)

lemma progress_callback_state:
  assumes "job_state R jid = Some (st, p)"
  shows "job_state (progress_callback E jid q m R) jid = Some (st, q)"
    and "trace (progress_callback E jid q m R) = trace R @ [(jid, st, q)]"
  using append_log_state [OF set_progress_state(1) [OF assms]] set_progress_state(2) [OF assms]
  by (simp_all add: progress_callback_def)

lemma mark_failed_state:
  assumes "job_state R jid = Some (st, p)"
  shows "job_state (mark_failed jid msg line R) jid = Some (Failed, p)"
    and "trace (mark_failed jid msg line R) = trace R @ [(jid, Failed, p)]"
proof -
  let ?R1 = "set_status jid Failed R"
  let ?R2 = "update_job jid (\<lambda>j. j\<lparr>error_message := Some msg\<rparr>) ?R1"
  have s1: "job_state ?R1 jid = Some (Failed, p)" and t1: "trace ?R1 = trace R @ [(jid, Failed, p)]"
    using set_status_state [OF assms] by simp_all
  have s2: "job_state ?R2 jid = Some (Failed, p)" and t2: "trace ?R2 = trace ?R1"
    using job_state_update_job [OF s1, of "\<lambda>j. j\<lparr>error_message := Some msg\<rparr>" "\<lambda>x. x" "\<lambda>x. x"]
    by simp_all
  show "job_state (mark_failed jid msg line R) jid = Some (Failed, p)"
    and "trace (mark_failed jid msg line R) = trace R @ [(jid, Failed, p)]"
    using append_log_state [OF s2] t1 t2 by (simp_all add: mark_failed_def)
qed

lemma callbacks_state:
  assumes "job_state R jid = Some (st, p)"
  shows "job_state (foldl (\<lambda>x c. report (Some (progress_callback E jid)) (fst c) (snd c) x) R cs) jid
           = Some (st, last (p # map fst cs))
       \<and> trace (foldl (\<lambda>x c. report (Some (progress_callback E jid)) (fst c) (snd c) x) R cs)
           = trace R @ map (\<lambda>c. (jid, st, fst c)) cs"
proof (induction cs rule: rev_induct)
  case Nil
  show ?case using assms by simp
next
  case (snoc c cs)
  let ?R = "foldl (\<lambda>x c. report (Some (progress_callback E jid)) (fst c) (snd c) x) R cs"
  from snoc.IH have s: "job_state ?R jid = Some (st, last (p # map fst cs))"
    and t: "trace ?R = trace R @ map (\<lambda>c. (jid, st, fst c)) cs" by simp_all
  show ?case
    using progress_callback_state [OF s, of E "fst c" "snd c"] t
    by (simp add: report_def)
qed

lemma reported_state:
  assumes "job_state R jid = Some (st, p)"
  shows "job_state (reported (Some (progress_callback E jid)) k R) jid
           = Some (st, last (p # map fst (take k checkpoints)))"
    and "trace (reported (Some (progress_callback E jid)) k R)
           = trace R @ map (\<lambda>c. (jid, st, fst c)) (take k checkpoints)"
  using callbacks_state [OF assms, of E "take k checkpoints"] by (simp_all add: reported_def)

lemma job_body_trace:
  assumes st: "job_state R jid = Some (st0, 0)"
  shows "\<exists>k fin. k \<le> 5
     \<and> trace (snd (snd (job_body E lb jid fbx sc bg (w, R))))
         = trace R @ (jid, Processing, 0) # map (\<lambda>c. (jid, Processing, fst c)) (take k checkpoints) @ fin
     \<and> ((fst (job_body E lb jid fbx sc bg (w, R)) = None \<and> k = 5
           \<and> fin = [(jid, Completed, 100), (jid, Completed, 100)]
           \<and> job_state (snd (snd (job_body E lb jid fbx sc bg (w, R)))) jid = Some (Completed, 100)
           \<and> fault E (OpZip (result_zip_path jid)) = None)
        \<or> (fst (job_body E lb jid fbx sc bg (w, R)) = None \<and> k < 5
           \<and> fin = [(jid, Failed, progress_after k)]
           \<and> job_state (snd (snd (job_body E lb jid fbx sc bg (w, R)))) jid = Some (Failed, progress_after k))
        \<or> (fst (job_body E lb jid fbx sc bg (w, R)) \<noteq> None \<and> fin = []
           \<and> job_state (snd (snd (job_body E lb jid fbx sc bg (w, R)))) jid = Some (Processing, progress_after k)
           \<and> (k = 5 \<longrightarrow> fault E (OpZip (result_zip_path jid))
                          = fst (job_body E lb jid fbx sc bg (w, R)))))"
proof -
  let ?R1 = "append_log jid (''Starting FBX processing for job '' @ jid) (set_status jid Processing R)"
  let ?out = "join output_folder jid"
  let ?cb = "Some (progress_callback E jid)"
  have s1: "job_state ?R1 jid = Some (Processing, 0)" and t1: "trace ?R1 = trace R @ [(jid, Processing, 0)]"
    using append_log_state [OF set_status_state(1) [OF st]] set_status_state(2) [OF st] by simp_all
  obtain r0 w1 where mk: "makedirs E ?out w = (r0, w1)" by (cases "makedirs E ?out w")
  show ?thesis
  proof (cases r0)
    case (Inl e)
    then have jb: "job_body E lb jid fbx sc bg (w, R) = (Some e, w1, ?R1)"
      by (simp add: job_body_def mk Let_def)
    show ?thesis
      using s1 t1 by (intro exI [of _ 0] exI [of _ "[]"]) (simp add: jb progress_after_def)
  next
    case (Inr u)
    obtain res w2 R2 where cv: "convert_fbx_to_mdl E fbx ?out (float_str lb sc) bg ?cb (w1, ?R1) = (res, w2, R2)"
      by (cases "convert_fbx_to_mdl E fbx ?out (float_str lb sc) bg ?cb (w1, ?R1)")
    obtain k where k: "R2 = reported ?cb k ?R1" "k \<le> 5" "k = 5 \<longleftrightarrow> (\<exists>fs. res = Inr (ConvSuccess fs))"
      using convert_reports [of E fbx ?out "float_str lb sc" bg ?cb "(w1, ?R1)"] cv by auto
    have s2: "job_state R2 jid = Some (Processing, progress_after k)"
      and t2: "trace R2 = trace R @ (jid, Processing, 0) # map (\<lambda>c. (jid, Processing, fst c)) (take k checkpoints)"
      using reported_state [OF s1, of E k] t1 k(1) by (simp_all add: progress_after_def)
    show ?thesis
    proof (cases res)
      case (Inl e)
      then have jb: "job_body E lb jid fbx sc bg (w, R) = (Some e, w2, R2)"
        using mk Inr cv by (simp add: job_body_def Let_def)
      have "k \<noteq> 5" using k(3) Inl by simp
      then show ?thesis
        using s2 t2 k(2) by (intro exI [of _ k] exI [of _ "[]"]) (simp add: jb)
    next
      case res: (Inr cr)
      show ?thesis
      proof (cases cr)
        case (ConvFailure err)
        then have jb: "job_body E lb jid fbx sc bg (w, R)
            = (None, w2, mark_failed jid err (''Conversion failed: '' @ err) R2)"
          using mk Inr cv res by (simp add: job_body_def Let_def)
        have "k \<noteq> 5" using k(3) res ConvFailure by simp
        then have "k < 5" using k(2) by simp
        then show ?thesis
          using mark_failed_state [OF s2, of err "''Conversion failed: '' @ err"] t2 k(2)
          by (intro exI [of _ k] exI [of _ "[(jid, Failed, progress_after k)]"]) (simp add: jb)
      next
        case (ConvSuccess fs)
        then have k5: "k = 5" using k(3) res by simp
        have p5: "progress_after 5 = 100" by (simp add: progress_after_def checkpoints_def)
        obtain rz w3 where zp: "create_result_zip E fs (result_zip_path jid) fbx w2 = (rz, w3)"
          by (cases "create_result_zip E fs (result_zip_path jid) fbx w2")
        show ?thesis
        proof (cases rz)
          case (Inl e)
          then have jb: "job_body E lb jid fbx sc bg (w, R) = (Some e, w3, R2)"
            using zp mk \<open>r0 = Inr u\<close> cv res ConvSuccess
            by (simp add: job_body_def Let_def result_zip_path_def)
          have "fault E (OpZip (result_zip_path jid)) = Some e"
            using zp Inl by (auto simp: create_result_zip_def Let_def split: option.splits)
          then show ?thesis
            using s2 t2 k(2) by (intro exI [of _ k] exI [of _ "[]"]) (simp add: jb)
        next
          case (Inr u2)
          let ?Ra = "set_status jid Completed R2"
          let ?Rb = "update_job jid (\<lambda>j. j\<lparr>result_file := Some (result_zip_path jid)\<rparr>) ?Ra"
          let ?Rc = "set_progress jid 100 ?Rb"
          let ?Rd = "append_log jid ''Conversion completed successfully!'' ?Rc"
          have jb: "job_body E lb jid fbx sc bg (w, R) = (None, w3, ?Rd)"
            using zp Inr mk \<open>r0 = Inr u\<close> cv res ConvSuccess
            by (simp add: job_body_def Let_def result_zip_path_def)
          have sa: "job_state ?Ra jid = Some (Completed, 100)"
            and ta: "trace ?Ra = trace R2 @ [(jid, Completed, 100)]"
            using set_status_state [OF s2, of Completed] by (simp_all add: k5 p5)
          have sb: "job_state ?Rb jid = Some (Completed, 100)" and tb: "trace ?Rb = trace ?Ra"
            using job_state_update_job [OF sa, of "\<lambda>j. j\<lparr>result_file := Some (result_zip_path jid)\<rparr>"
                "\<lambda>x. x" "\<lambda>x. x"] by simp_all
          have sc: "job_state ?Rc jid = Some (Completed, 100)"
            and tc: "trace ?Rc = trace ?Rb @ [(jid, Completed, 100)]"
            using set_progress_state [OF sb, of 100] by simp_all
          have sd: "job_state ?Rd jid = Some (Completed, 100)" and td: "trace ?Rd = trace ?Rc"
            using append_log_state [OF sc] by simp_all
          have nf: "fault E (OpZip (result_zip_path jid)) = None"
            using zp Inr by (auto simp: create_result_zip_def Let_def split: option.splits)
          show ?thesis
            using sd td tc tb ta t2 k5 nf
            by (intro exI [of _ 5] exI [of _ "[(jid, Completed, 100), (jid, Completed, 100)]"])
               (simp add: jb)
        qed
      qed
    qed
  qed
qed


lemma progress_after_cases:
  assumes "k \<le> 5"
  shows "(progress_after k = 100 \<longleftrightarrow> k = 5)
       \<and> sorted (0 # 0 # map fst (take k checkpoints) @ replicate n (progress_after k))"
proof -
  from assms consider "k = 0" | "k = 1" | "k = 2" | "k = 3" | "k = 4" | "k = 5" by linarith
  then show ?thesis
    by cases (simp_all add: progress_after_def checkpoints_def sorted_append numeral_eq_Suc)
qed

text \<open>
  Claim C2, as amended. For a job that starts queued with progress 0, the values assigned
  to its progress while \<open>process_fbx_job\<close> runs are 0 followed by the first \<open>k\<close> of the
  checkpoints 10, 40, 60, 90, 100, in that order, followed by repetitions of the last of
  them; they are non-decreasing. A job that ends completed has progress 100. A job that
  ends with progress 100 is completed when writing the result archive does not raise; it
  is failed when that raises an exception that \<^verbatim>\<open>except Exception\<close> catches; and it is left
  processing when that raises an exception that is not caught.
\<close>

theorem progress_nondecreasing_completed_100:
  assumes "job_state R jid = Some (Queued, 0)"
  shows "\<exists>k new st. k \<le> 5
     \<and> trace (snd (snd (process_fbx_job E lb jid fbx sc bg (w, R)))) = trace R @ new
     \<and> (\<exists>n. map (snd \<circ> snd) new = 0 # map fst (take k checkpoints) @ replicate n (progress_after k))
     \<and> sorted (0 # map (snd \<circ> snd) new)
     \<and> job_state (snd (snd (process_fbx_job E lb jid fbx sc bg (w, R)))) jid = Some (st, progress_after k)
     \<and> (st = Completed \<longrightarrow> progress_after k = 100)
     \<and> (progress_after k = 100 \<and> fault E (OpZip (result_zip_path jid)) = None \<longrightarrow> st = Completed)
     \<and> (progress_after k = 100 \<longrightarrow>
          (case fault E (OpZip (result_zip_path jid)) of
             None \<Rightarrow> st = Completed
           | Some e \<Rightarrow> st = (if is_Exception e then Failed else Processing)))"
proof -
  obtain j0 where j0: "map_of (jobs R) jid = Some j0"
    using assms by (auto simp: job_state_def)
  obtain r w1 R1 where jb: "job_body E lb jid fbx sc bg (w, R) = (r, w1, R1)"
    by (cases "job_body E lb jid fbx sc bg (w, R)")
  obtain rf w2 where cu: "cleanup_upload E fbx w1 = (rf, w2)"
    by (cases "cleanup_upload E fbx w1")
  obtain k fin where k: "k \<le> 5"
    and tr: "trace R1 = trace R @ (jid, Processing, 0) # map (\<lambda>c. (jid, Processing, fst c)) (take k checkpoints) @ fin"
    and cases: "(r = None \<and> k = 5 \<and> fin = [(jid, Completed, 100), (jid, Completed, 100)]
                  \<and> job_state R1 jid = Some (Completed, 100)
                  \<and> fault E (OpZip (result_zip_path jid)) = None)
        \<or> (r = None \<and> k < 5 \<and> fin = [(jid, Failed, progress_after k)]
                  \<and> job_state R1 jid = Some (Failed, progress_after k))
        \<or> (r \<noteq> None \<and> fin = [] \<and> job_state R1 jid = Some (Processing, progress_after k)
                  \<and> (k = 5 \<longrightarrow> fault E (OpZip (result_zip_path jid)) = r))"
    using job_body_trace [OF assms, of E lb fbx sc bg w] jb by auto
  let ?R' = "snd (snd (process_fbx_job E lb jid fbx sc bg (w, R)))"
  let ?pre = "(jid, Processing, 0) # map (\<lambda>c. (jid, Processing, fst c)) (take k checkpoints)"
  have pre: "map (snd \<circ> snd) ?pre = 0 # map fst (take k checkpoints)"
    by (simp add: comp_def)
  note pc = progress_after_cases [OF k]
  have p100: "progress_after k = 100 \<longleftrightarrow> k = 5" using pc by simp
  have goal: "\<exists>k new st. k \<le> 5
     \<and> trace ?R' = trace R @ new
     \<and> (\<exists>n. map (snd \<circ> snd) new = 0 # map fst (take k checkpoints) @ replicate n (progress_after k))
     \<and> sorted (0 # map (snd \<circ> snd) new)
     \<and> job_state ?R' jid = Some (st, progress_after k)
     \<and> (st = Completed \<longrightarrow> progress_after k = 100)
     \<and> (progress_after k = 100 \<and> fault E (OpZip (result_zip_path jid)) = None \<longrightarrow> st = Completed)
     \<and> (progress_after k = 100 \<longrightarrow>
          (case fault E (OpZip (result_zip_path jid)) of
             None \<Rightarrow> st = Completed
           | Some e \<Rightarrow> st = (if is_Exception e then Failed else Processing)))"
    if R': "?R' = R2" and tr2: "trace R2 = trace R @ ?pre @ replicate n (jid, st, progress_after k)"
      and st2: "job_state R2 jid = Some (st, progress_after k)"
      and c1: "st = Completed \<longrightarrow> k = 5"
      and c2: "k = 5 \<and> fault E (OpZip (result_zip_path jid)) = None \<longrightarrow> st = Completed"
      and c3: "k = 5 \<longrightarrow>
          (case fault E (OpZip (result_zip_path jid)) of
             None \<Rightarrow> st = Completed
           | Some e \<Rightarrow> st = (if is_Exception e then Failed else Processing))"
    for R2 n st
  proof -
    have m: "map (snd \<circ> snd) (?pre @ replicate n (jid, st, progress_after k))
        = 0 # map fst (take k checkpoints) @ replicate n (progress_after k)"
      by (simp add: comp_def)
    have srt: "sorted (0 # map (snd \<circ> snd) (?pre @ replicate n (jid, st, progress_after k)))"
      unfolding m using progress_after_cases [OF k, of n] by simp
    show ?thesis
      apply (rule exI [of _ k], rule exI [of _ "?pre @ replicate n (jid, st, progress_after k)"],
          rule exI [of _ st])
      using k R' tr2 st2 c1 c2 c3 p100 srt m by auto
  qed
  from cases show ?thesis
  proof (elim disjE conjE)
    assume a: "r = None" "k = 5" "fin = [(jid, Completed, 100), (jid, Completed, 100)]"
      "job_state R1 jid = Some (Completed, 100)" "fault E (OpZip (result_zip_path jid)) = None"
    have R': "?R' = R1"
      using j0 jb cu a(1) by (simp add: process_fbx_job_def)
    have p: "progress_after k = 100" using a(2) p100 by simp
    show ?thesis
      by (rule goal [OF R', of 2 Completed]) (use a tr p in \<open>simp_all add: numeral_eq_Suc\<close>)
  next
    assume a: "r = None" "k < 5" "fin = [(jid, Failed, progress_after k)]"
      "job_state R1 jid = Some (Failed, progress_after k)"
    have R': "?R' = R1"
      using j0 jb cu a(1) by (simp add: process_fbx_job_def)
    show ?thesis
      by (rule goal [OF R', of 1 Failed]) (use a tr in simp_all)
  next
    assume a: "r \<noteq> None" "fin = []" "job_state R1 jid = Some (Processing, progress_after k)"
      "k = 5 \<longrightarrow> fault E (OpZip (result_zip_path jid)) = r"
    then obtain e where e: "r = Some e" by auto
    show ?thesis
    proof (cases "is_Exception e")
      case True
      have R': "?R' = mark_failed jid (str_exn e) (''Error: '' @ str_exn e) R1"
        using j0 jb cu e True by (simp add: process_fbx_job_def)
      show ?thesis
        by (rule goal [OF R', of 1 Failed])
           (use a e True tr mark_failed_state [OF a(3), of "str_exn e" "''Error: '' @ str_exn e"] in simp_all)
    next
      case False
      have R': "?R' = R1"
        using j0 jb cu e False by (simp add: process_fbx_job_def)
      show ?thesis
        by (rule goal [OF R', of 0 Processing]) (use a e False tr in simp_all)
    qed
  qed
qed

theorem progress_nondecreasing_completed_100_witness:
  "job_state registry0 ''j1'' = Some (Queued, 0)
   \<and> job_state (snd (snd (process_fbx_job env_zip_interrupted libs0 ''j1'' ''uploads/j1_m.fbx''
         (Finite 1) ''default'' (world0, registry0)))) ''j1'' = Some (Processing, 100)
   \<and> trace (snd (snd (process_fbx_job env0 libs0 ''j1'' ''uploads/j1_m.fbx'' (Finite 1) ''default''
         (world0, registry0))))
       = [(''j1'', Processing, 0), (''j1'', Processing, 10), (''j1'', Processing, 40),
          (''j1'', Processing, 60), (''j1'', Processing, 90), (''j1'', Processing, 100),
          (''j1'', Completed, 100), (''j1'', Completed, 100)]
   \<and> (\<exists>k new st. k \<le> 5
     \<and> trace (snd (snd (process_fbx_job env0 libs0 ''j1'' ''uploads/j1_m.fbx'' (Finite 1) ''default''
           (world0, registry0)))) = trace registry0 @ new
     \<and> (\<exists>n. map (snd \<circ> snd) new = 0 # map fst (take k checkpoints) @ replicate n (progress_after k))
     \<and> sorted (0 # map (snd \<circ> snd) new)
     \<and> job_state (snd (snd (process_fbx_job env0 libs0 ''j1'' ''uploads/j1_m.fbx'' (Finite 1) ''default''
           (world0, registry0)))) ''j1'' = Some (st, progress_after k)
     \<and> (st = Completed \<longrightarrow> progress_after k = 100)
     \<and> (progress_after k = 100 \<and> fault env0 (OpZip (result_zip_path ''j1'')) = None \<longrightarrow> st = Completed)
     \<and> (progress_after k = 100 \<longrightarrow>
          (case fault env0 (OpZip (result_zip_path ''j1'')) of
             None \<Rightarrow> st = Completed
           | Some e \<Rightarrow> st = (if is_Exception e then Failed else Processing))))"
proof -
  have h: "job_state registry0 ''j1'' = Some (Queued, 0)"
    by (simp add: job_state_def registry0_def ConversionJob_def)
  have t: "trace (snd (snd (process_fbx_job env0 libs0 ''j1'' ''uploads/j1_m.fbx'' (Finite 1) ''default''
         (world0, registry0))))
       = [(''j1'', Processing, 0), (''j1'', Processing, 10), (''j1'', Processing, 40),
          (''j1'', Processing, 60), (''j1'', Processing, 90), (''j1'', Processing, 100),
          (''j1'', Completed, 100), (''j1'', Completed, 100)]"
    by code_simp
  have i: "job_state (snd (snd (process_fbx_job env_zip_interrupted libs0 ''j1'' ''uploads/j1_m.fbx''
         (Finite 1) ''default'' (world0, registry0)))) ''j1'' = Some (Processing, 100)"
    by code_simp
  show ?thesis
    using h t i progress_nondecreasing_completed_100 [OF h, of env0 libs0 "''uploads/j1_m.fbx''" "Finite 1"
        "''default''" world0]
    by blast
qed

text \<open>
  Claim C2 as stated fails: when the conversion succeeds and writing the result archive
  raises, the job ends failed with progress 100.
\<close>

theorem failed_job_with_progress_100_counterexample:
  "job_state (snd (snd (process_fbx_job env_zip_fails libs0 ''j1'' ''uploads/j1_m.fbx'' (Finite 1)
     ''default'' (world0, registry0)))) ''j1'' = Some (Failed, 100)"
  by code_simp

section \<open>A fault in the upload handler after the job was created\<close>

lemma not_contains_if_not_subset: "\<not> set p \<subseteq> set s \<Longrightarrow> \<not> contains s p"
  by (auto simp: contains_iff)

lemma startswith_append_self: "startswith (p @ r) p"
  by (auto simp: startswith_iff)

lemma lower_binary:
  "lower (''Kaydara FBX Binary'' @ replicate n (CHR ''a'')) = ''kaydara fbx binary'' @ replicate n (CHR ''a'')"
  by (simp add: lower_def lower_char_def)

lemma binary_fbx_safe:
  "validate_content_safety (''Kaydara FBX Binary'' @ replicate 1100 (CHR ''a''))"
  unfolding validate_content_safety_def Let_def lower_binary dangerous_patterns_def
  by (simp add: not_contains_if_not_subset)

lemma file_binary_fbx_valid: "validate_file libs0 file_binary_fbx = (True, file_binary_fbx)"
proof -
  let ?c = "''Kaydara FBX Binary'' @ replicate 1100 (CHR ''a'')"
  have ext: "validate_extension ''m.fbx''"
    by (simp add: validate_extension_def lower_def lower_char_def splitext_def basename_def
        allowed_extensions_def)
  have size: "validate_file_size ?c"
    by (simp add: validate_file_size_def min_file_size_def max_file_size_def)
  have mime: "validate_mime_type libs0 ?c"
    by (simp add: validate_mime_type_def libs0_def allowed_mime_types_def)
  have struct: "validate_fbx_structure libs0 ?c"
    using startswith_append_self [of "''Kaydara FBX Binary''" "replicate 1100 (CHR ''a'')"]
    by (simp add: validate_fbx_structure_def validate_binary_fbx_def)
  show ?thesis
    using ext size mime struct binary_fbx_safe
    by (simp add: validate_file_def file_binary_fbx_def seek_def read_def Let_def)
qed

lemma upload_file_save_fault:
  assumes "is_allowed (rate_limiter_of A) (clock E) (client_key req) = (True, L1)"
    and "file_part req = Some file" and "filename file \<noteq> []"
    and "validate_file lb file = (True, file1)"
    and "py_float lb (case form_scale req of Some t \<Rightarrow> t | None \<Rightarrow> ''1.0'') = Some sc"
    and "\<not> scale_out_of_range sc"
    and "fault E (OpSave (join upload_folder (uuid4 E @ ''_'' @ secure_filename lb (filename file1))))
           = Some (Exception m)"
  shows "upload_file E lb req A
     = (Inr (ErrorResponse 500 ''Internal server error during upload''),
        A\<lparr>rate_limiter_of := L1,
          registry_of := (registry_of A)
            \<lparr>jobs := AList.update (uuid4 E) (ConversionJob (uuid4 E) (datetime_now E))
                       (jobs (registry_of A))\<rparr>\<rparr>,
        None)"
  using assms by (simp add: upload_file_def file_save_def Let_def)

text \<open>
  Claim C9 at a concrete input. A valid binary FBX file is uploaded by an admitted client
  and \<^verbatim>\<open>file.save\<close> raises. The handler answers 500; the job it had created stays in the
  registry with status queued and no error message, and no worker is started for it.
\<close>

theorem upload_fault_leaves_job_queued:
  "fst (upload_file env_save_fails libs0 request_upload app0)
     = Inr (ErrorResponse 500 ''Internal server error during upload'')
   \<and> map_option (\<lambda>j. (status j, error_message j))
        (map_of (jobs (registry_of (fst (snd (upload_file env_save_fails libs0 request_upload app0))))) ''j1'')
     = Some (Queued, None)
   \<and> snd (snd (upload_file env_save_fails libs0 request_upload app0)) = None"
proof -
  have a: "is_allowed (rate_limiter_of app0) (clock env_save_fails) (client_key request_upload)
      = (True, snd (is_allowed (rate_limiter_of app0) (clock env_save_fails) (client_key request_upload)))"
    by (simp add: is_allowed_def clean_old_def app0_def RateLimiter_default_def RateLimiter_init_def
        Let_def)
  have f: "file_part request_upload = Some file_binary_fbx"
    and n: "filename file_binary_fbx \<noteq> []"
    and p: "py_float libs0 (case form_scale request_upload of Some t \<Rightarrow> t | None \<Rightarrow> ''1.0'')
              = Some (Finite 1)"
    and s: "\<not> scale_out_of_range (Finite 1)"
    and sv: "fault env_save_fails (OpSave (join upload_folder
               (uuid4 env_save_fails @ ''_'' @ secure_filename libs0 (filename file_binary_fbx))))
             = Some (Exception ''No space left on device'')"
    by (simp_all add: request_upload_def file_binary_fbx_def libs0_def env_save_fails_def)
  show ?thesis
    unfolding upload_file_save_fault [OF a f n file_binary_fbx_valid p s sv]
    by (simp add: env_save_fails_def env0_def app0_def ConversionJob_def)
qed

section \<open>The generated descriptor\<close>










lemma not_contains_empty: "\<not> contains [] ''_ref''"
  by simp









end
